theory Spec2Isabelle
  imports Main
begin

section \<open>Values and host types\<close>

text \<open>
  The extension fragments are sequences of calls into the editor host. Values that cross
  the webview boundary or go through the YAML library are JavaScript values; numbers are
  integers here, and an object is the list of its properties (keys distinct).
\<close>

datatype error = Error string | TypeError string | HostError string

fun message :: "error \<Rightarrow> string" where
  "message (Error m) = m"
| "message (TypeError m) = m"
| "message (HostError m) = m"

datatype jsval =
    JUndefined
  | JNull
  | JBool bool
  | JNum int
  | JStr string
  | JArr "jsval list"
  | JObj "(string \<times> jsval) list"

fun truthy :: "jsval \<Rightarrow> bool" where
  "truthy JUndefined = False"
| "truthy JNull = False"
| "truthy (JBool b) = b"
| "truthy (JNum n) = (n \<noteq> 0)"
| "truthy (JStr s) = (s \<noteq> [])"
| "truthy (JArr _) = True"
| "truthy (JObj _) = True"

text \<open>
  Reading a property in a destructuring pattern: \<open>undefined\<close> and \<open>null\<close> cannot be
  destructured; the two properties read this way are not properties of a primitive or of
  an array.
\<close>

fun js_get :: "jsval \<Rightarrow> string \<Rightarrow> error + jsval" where
  "js_get JUndefined k = Inl (TypeError ''Cannot destructure undefined'')"
| "js_get JNull k = Inl (TypeError ''Cannot destructure null'')"
| "js_get (JObj kvs) k = Inr (case map_of kvs k of None \<Rightarrow> JUndefined | Some v \<Rightarrow> v)"
| "js_get _ k = Inr JUndefined"

text \<open>A host function that takes a string raises on any other value.\<close>

fun as_string :: "jsval \<Rightarrow> error + string" where
  "as_string (JStr s) = Inr s"
| "as_string _ = Inl (TypeError ''The path argument must be of type string'')"

record uri =
  scheme :: string
  authority :: string
  path :: string

text \<open>A file URI without authority, given by its path.\<close>

definition file_uri :: "string \<Rightarrow> uri" where
  "file_uri p = \<lparr>scheme = ''file'', authority = [], path = p\<rparr>"

definition is_letter :: "char \<Rightarrow> bool" where
  "is_letter c \<longleftrightarrow>
     (65 \<le> (of_char c :: nat) \<and> (of_char c :: nat) \<le> 90)
     \<or> (97 \<le> (of_char c :: nat) \<and> (of_char c :: nat) \<le> 122)"

definition toLowerCase :: "char \<Rightarrow> char" where
  "toLowerCase c =
     (if 65 \<le> (of_char c :: nat) \<and> (of_char c :: nat) \<le> 90
      then char_of ((of_char c :: nat) + 32) else c)"

text \<open>
  \<open>uri.fsPath\<close> on a POSIX host: a file URI with an authority and a path beyond the root
  gives the UNC form; a path that starts with a drive letter loses its leading slash and
  gets the letter in lower case; any other path is given as it is.
\<close>

definition fsPath :: "uri \<Rightarrow> string" where
  "fsPath u =
     (if authority u \<noteq> [] \<and> length (path u) > 1 \<and> scheme u = ''file''
      then ''//'' @ authority u @ path u
      else
        (case path u of
           c0 # c1 # c2 # rest \<Rightarrow>
             if c0 = CHR ''/'' \<and> is_letter c1 \<and> c2 = CHR '':''
             then toLowerCase c1 # c2 # rest
             else path u
         | _ \<Rightarrow> path u))"

text \<open>
  \<open>vscode.Uri.file\<close> on a POSIX host. A path that begins with two slashes is split into
  the authority (up to the next slash) and the rest; the path of the URI is the rest,
  made to start with a slash. The URI is then validated: without an authority its path
  must not begin with two slashes, so a path that begins with four slashes is refused
  with an error.
\<close>

definition Uri_file :: "string \<Rightarrow> error + uri" where
  "Uri_file p =
     (let (auth, rest) =
            (case p of
               c0 # c1 # after \<Rightarrow>
                 if c0 = CHR ''/'' \<and> c1 = CHR ''/''
                 then (takeWhile (\<lambda>c. c \<noteq> CHR ''/'') after, dropWhile (\<lambda>c. c \<noteq> CHR ''/'') after)
                 else ([], p)
             | _ \<Rightarrow> ([], p));
          resolved =
            (case rest of
               [] \<Rightarrow> ''/''
             | c # _ \<Rightarrow> if c = CHR ''/'' then rest else CHR ''/'' # rest)
      in if auth = [] \<and> take 2 resolved = ''//''
         then Inl (Error ''[UriError]: If a URI does not contain an authority component, then the path cannot begin with two slash characters'')
         else Inr \<lparr>scheme = ''file'', authority = auth, path = resolved\<rparr>)"

record text_document =
  document_uri :: uri
  languageId :: string
  getText :: string
  lineCount :: nat

datatype file_type = Unknown | File | Directory | SymbolicLink

datatype view_column = Active | Beside

datatype binding_type = BindingType_input | BindingType_output

text \<open>\<open>new vscode.Range(startLine, startCharacter, endLine, endCharacter)\<close>.\<close>

datatype range = Range nat nat nat nat

text \<open>
  The page \<open>getHtmlForWebview\<close> builds, given by the values interpolated into its
  template, in the order of their first occurrence.
\<close>

record editor_html =
  html_cspSource :: string
  html_nonce :: string
  html_styleVSCodeUri :: string
  html_codiconsUri :: string
  html_dirName :: string
  html_gitRepo :: string
  html_scriptUri :: string

datatype arg =
    AUri uri
  | AStr string
  | ABool bool
  | AColumn view_column
  | AObj "(string \<times> arg) list"

section \<open>Host calls and the state they act on\<close>

text \<open>
  Every call into the host (the editor API, Node's \<open>fs\<close>, the Azure Functions and SQL
  bindings helpers) that a fragment makes. \<open>WatcherCreated d\<close> is not a call: it records
  that the host handed out a file-system watcher whose disposable is \<open>d\<close>.
\<close>

datatype host_call =
    ExecuteCommand string "arg list"
  | ShowErrorMessage string "string list"
  | OpenTextDocument uri
  | ShowTextDocument text_document "view_column option"
  | Stat uri
  | TocLookup text_document string
  | RevealRange text_document int
  | MkdirSync string
  | WriteFileSync string string
  | ApplyEdit uri range string
  | PostMessage jsval
  | SetWebviewOptions
  | SetHtml editor_html
  | DisposePanel
  | Subscribe string
  | ConsoleLog string
  | FastGlob "string list"
  | Fetch jsval
  | GetAzureFunctionsExtensionApi
  | GetAzureFunctionProject
  | WaitForNewHostFile
  | WaitForNewFunctionFile string
  | WatcherCreated nat
  | Dispose nat
  | CreateFunction "(string \<times> string) list"
  | GetUniqueFileName string string
  | ShowInputBox string
  | ShowQuickPick
  | AddNugetReferenceToProjectFile string
  | AddConnectionStringToConfig string string
  | GetAzureFunctionService
  | AddSqlBinding binding_type string string string string
  | OverwriteAzureFunctionMethodBody string

text \<open>
  The state: the regular files and the directories of the file system, and the calls made
  so far, oldest first.
\<close>

record world =
  files :: "string \<Rightarrow> string option"
  dirs :: "string list"
  trace :: "host_call list"

section \<open>Results and sequencing\<close>

text \<open>
  A function of the source becomes a function from the state before to an outcome and the
  state after: the outcome is \<open>Inl e\<close> when the source throws (or its promise rejects
  with) \<open>e\<close>, and \<open>Inr x\<close> when it returns \<open>x\<close>. An \<open>await\<close> is sequencing; the
  interleaving of two handlers between awaits is not modelled.
\<close>

type_synonym 'a prog = "world \<Rightarrow> (error + 'a) \<times> world"

definition return :: "'a \<Rightarrow> 'a prog" where
  "return x s = (Inr x, s)"

definition throw :: "error \<Rightarrow> 'a prog" where
  "throw e s = (Inl e, s)"

definition andThen :: "'a prog \<Rightarrow> ('a \<Rightarrow> 'b prog) \<Rightarrow> 'b prog" where
  "andThen m f s = (case m s of (Inl e, s') \<Rightarrow> (Inl e, s') | (Inr x, s') \<Rightarrow> f x s')"

text \<open>\<open>try { m } catch { h }\<close>.\<close>

definition try_catch :: "'a prog \<Rightarrow> (error \<Rightarrow> 'a prog) \<Rightarrow> 'a prog" where
  "try_catch m h s = (case m s of (Inl e, s') \<Rightarrow> h e s' | (Inr x, s') \<Rightarrow> (Inr x, s'))"

text \<open>
  \<open>try { m } finally { f }\<close>: \<open>f\<close> runs whatever the outcome of \<open>m\<close>; when \<open>f\<close> itself
  throws, its error replaces the outcome of \<open>m\<close>.
\<close>

definition try_finally :: "'a prog \<Rightarrow> unit prog \<Rightarrow> 'a prog" where
  "try_finally m f s =
     (case m s of (r, s') \<Rightarrow>
        (case f s' of (Inl e, s'') \<Rightarrow> (Inl e, s'') | (Inr _, s'') \<Rightarrow> (r, s'')))"

text \<open>
  A call of an async function whose promise is dropped (no \<open>await\<close>): its effects
  happen, a rejection does not reach the caller.
\<close>

definition detached :: "'a prog \<Rightarrow> unit prog" where
  "detached m s = (Inr (), snd (m s))"

text \<open>The value of an expression that may throw.\<close>

definition lift :: "error + 'a \<Rightarrow> 'a prog" where
  "lift r s = (r, s)"

text \<open>An early \<open>return\<close> out of a block, or the value the block leaves behind.\<close>

datatype 'a flow = Return | Next 'a

text \<open>
  What every fragment asks of the host: opening a text document, the active editor
  (given by its document), and, for a call that answers nothing, the error it is rejected
  with, if any.
\<close>

record vscode_host =
  openTextDocument :: "uri \<Rightarrow> error + text_document"
  activeTextEditor :: "text_document option"
  fault :: "host_call \<Rightarrow> error option"

text \<open>A host request: the call is recorded, its outcome is the host's answer.\<close>

definition request :: "host_call \<Rightarrow> error + 'a \<Rightarrow> 'a prog" where
  "request c r w = (r, w\<lparr>trace := trace w @ [c]\<rparr>)"

text \<open>An awaited (or synchronous Node) call that answers nothing and may fail.\<close>

definition await_call :: "'h vscode_host_scheme \<Rightarrow> host_call \<Rightarrow> unit prog" where
  "await_call h c = request c (case fault h c of None \<Rightarrow> Inr () | Some e \<Rightarrow> Inl e)"

text \<open>
  A call whose promise is dropped, or a synchronous setter, subscription or disposal of
  the editor API: it is made and the caller goes on.
\<close>

definition emit :: "host_call \<Rightarrow> unit prog" where
  "emit c = request c (Inr ())"

section \<open>The Markdown document-link command\<close>

record OpenDocumentLinkArgs =
  args_path :: string
  args_fragment :: string
  args_fromResource :: string

text \<open>
  What the host and the helpers that are not part of these fragments answer:
  \<open>isMarkdownFile\<close> (\<open>../util/file\<close>), Node's \<open>extname\<close>, \<open>decodeURIComponent\<close>,
  \<open>vscode.Uri.parse\<close>, the configured \<open>markdown.links.openLocation\<close>, the outcomes of
  \<open>fs.stat\<close> and \<open>showTextDocument\<close> (an editor is given by its document) and of the
  table-of-contents lookup (the line of the entry).
\<close>

record md_host = vscode_host +
  isMarkdownFile :: "text_document \<Rightarrow> bool"
  extname :: "string \<Rightarrow> string"
  decodeURIComponent :: "string \<Rightarrow> error + string"
  Uri_parse :: "string \<Rightarrow> uri"
  links_openLocation :: "uri \<Rightarrow> string"
  stat :: "uri \<Rightarrow> error + file_type"
  showTextDocument :: "text_document \<Rightarrow> view_column \<Rightarrow> error + text_document"
  toc_lookup :: "text_document \<Rightarrow> string \<Rightarrow> error + int option"

definition getViewColumn :: "md_host \<Rightarrow> uri \<Rightarrow> view_column" where
  "getViewColumn h resource =
     (let openLinks = links_openLocation h resource
      in if openLinks = ''beside'' then Beside else Active)"

definition is_digit :: "char \<Rightarrow> bool" where
  "is_digit c \<longleftrightarrow> 48 \<le> (of_char c :: nat) \<and> (of_char c :: nat) \<le> 57"

definition number_of_digits :: "string \<Rightarrow> int" where
  "number_of_digits ds = foldl (\<lambda>a c. 10 * a + (int (of_char c) - 48)) 0 ds"

text \<open>
  \<open>fragment.match(/^L(\d+)$/i)\<close> followed by \<open>+lineNumberFragment[1] - 1\<close>: the line, when
  the fragment is an \<open>L\<close> or \<open>l\<close> and then digits only. The number is an unbounded
  integer here (the source's is a double).
\<close>

definition lineNumberFragment :: "string \<Rightarrow> int option" where
  "lineNumberFragment fragment =
     (case fragment of
        [] \<Rightarrow> None
      | c # ds \<Rightarrow>
          if (c = CHR ''L'' \<or> c = CHR ''l'') \<and> ds \<noteq> [] \<and> list_all is_digit ds
          then Some (number_of_digits ds - 1) else None)"

definition tryRevealLine :: "md_host \<Rightarrow> text_document \<Rightarrow> string \<Rightarrow> unit prog" where
  "tryRevealLine h editor fragment =
     (if fragment \<noteq> [] then
        andThen (request (TocLookup editor fragment) (toc_lookup h editor fragment)) (\<lambda>entry.
          case entry of
            Some line \<Rightarrow> await_call h (RevealRange editor line)
          | None \<Rightarrow>
              (case lineNumberFragment fragment of
                 Some line \<Rightarrow> await_call h (RevealRange editor line)
               | None \<Rightarrow> return ()))
      else return ())"

definition tryOpen ::
  "md_host \<Rightarrow> uri \<Rightarrow> OpenDocumentLinkArgs \<Rightarrow> view_column \<Rightarrow> unit prog" where
  "tryOpen h resource args column =
     (let open_resource =
        andThen (request (Stat resource) (stat h resource)) (\<lambda>st.
          if st = Directory then await_call h (ExecuteCommand ''revealInExplorer'' [AUri resource])
          else
            andThen (request (OpenTextDocument resource) (openTextDocument h resource)) (\<lambda>document.
            andThen (request (ShowTextDocument document (Some column)) (showTextDocument h document column)) (\<lambda>editor.
              tryRevealLine h editor (args_fragment args))))
      in case activeTextEditor h of
           None \<Rightarrow> open_resource
         | Some active \<Rightarrow>
             if isMarkdownFile h active \<and> fsPath (document_uri active) = fsPath resource
             then tryRevealLine h active (args_fragment args)
             else open_resource)"

definition execute :: "md_host \<Rightarrow> OpenDocumentLinkArgs \<Rightarrow> unit prog" where
  "execute h args =
     andThen (lift (decodeURIComponent h (args_fromResource args))) (\<lambda>decoded.
     andThen (lift (decodeURIComponent h (args_path args))) (\<lambda>targetPath.
     andThen (lift (Uri_file targetPath)) (\<lambda>targetResource.
       let fromResource = Uri_parse h decoded;
           column = getViewColumn h fromResource
       in try_catch (tryOpen h targetResource args column) (\<lambda>_.
            if extname h (path targetResource) = []
            then tryOpen h (targetResource\<lparr>path := path targetResource @ ''.md''\<rparr>) args column
            else await_call h (ExecuteCommand ''vscode.open'' [AUri targetResource, AColumn column])))))"

text \<open>
  \<open>vscode.Uri.file(path)\<close> stands before the \<open>try\<close>: an error it raises is not caught
  here.
\<close>

definition tryResolveLinkToMarkdownFile :: "md_host \<Rightarrow> string \<Rightarrow> uri option prog" where
  "tryResolveLinkToMarkdownFile h p =
     andThen (lift (Uri_file p)) (\<lambda>resource.
       andThen
         (try_catch
            (andThen (request (OpenTextDocument resource) (openTextDocument h resource))
               (\<lambda>document. return (Some document)))
            (\<lambda>_. return None))
         (\<lambda>opened. case opened of
            None \<Rightarrow> return None
          | Some document \<Rightarrow>
              if isMarkdownFile h document then return (Some (document_uri document))
              else return None))"

definition resolveLinkToMarkdownFile :: "md_host \<Rightarrow> string \<Rightarrow> uri option prog" where
  "resolveLinkToMarkdownFile h p =
     andThen (try_catch (tryResolveLinkToMarkdownFile h p) (\<lambda>_. return None)) (\<lambda>standardLink.
       case standardLink of
         Some link \<Rightarrow> return (Some link)
       | None \<Rightarrow>
           if extname h p = [] then tryResolveLinkToMarkdownFile h (p @ ''.md'')
           else return None)"

section \<open>The Flat configuration editor\<close>

text \<open>
  What the libraries and the host answer to the editor: \<open>stringify\<close> and \<open>parse\<close> of the
  \<open>yaml\<close> package (\<open>parse\<close> throws on malformed text), Node's \<open>path.join\<close> (also behind
  \<open>vscode.Uri.joinPath\<close>), the workspace folders (each given by its URI; \<open>None\<close> is
  \<open>undefined\<close>), the extension's own URI, the webview's \<open>asWebviewUri\<close> (as text) and
  \<open>cspSource\<close>, \<open>getNonce\<close> of \<open>./lib\<close>, and the outcomes of \<open>fast-glob\<close> and of
  \<open>fetch\<close> followed by \<open>text()\<close>.
\<close>

record flat_host = vscode_host +
  stringify :: "jsval \<Rightarrow> string"
  parse :: "string \<Rightarrow> error + jsval"
  path_join :: "string list \<Rightarrow> string"
  workspaceFolders :: "uri list option"
  extensionUri :: uri
  asWebviewUri :: "uri \<Rightarrow> string"
  cspSource :: string
  getNonce :: string
  fg :: "string list \<Rightarrow> error + string list"
  fetch :: "jsval \<Rightarrow> error + string"

record ShowEditorOptions =
  isPreview :: "bool option"
  onSide :: "bool option"

record webview_message =
  msg_type :: jsval
  msg_data :: jsval

definition Uri_joinPath :: "flat_host \<Rightarrow> uri \<Rightarrow> string list \<Rightarrow> uri" where
  "Uri_joinPath h base segments = base\<lparr>path := path_join h (path base # segments)\<rparr>"

text \<open>
  \<open>vscode.workspace.workspaceFolders?.[0].uri\<close>: \<open>undefined\<close> when there are no workspace
  folders at all; on an empty array the element read is \<open>undefined\<close> and reading its
  \<open>uri\<close> throws.
\<close>

definition workspaceRootUri :: "flat_host \<Rightarrow> error + uri option" where
  "workspaceRootUri h =
     (case workspaceFolders h of
        None \<Rightarrow> Inr None
      | Some [] \<Rightarrow> Inl (TypeError ''Cannot read properties of undefined (reading uri)'')
      | Some (folder # _) \<Rightarrow> Inr (Some folder))"

definition flatFileUri :: "flat_host \<Rightarrow> uri \<Rightarrow> uri" where
  "flatFileUri h root = Uri_joinPath h root [''.github/workflows'', ''flat.yml'']"

text \<open>The \<open>vscode.openWith\<close> command both \<open>showEditor\<close> functions execute.\<close>

definition openWith :: "flat_host \<Rightarrow> uri \<Rightarrow> bool \<Rightarrow> bool \<Rightarrow> host_call" where
  "openWith h root preview side =
     ExecuteCommand ''vscode.openWith''
       [AUri (flatFileUri h root),
        AStr (if preview then ''flat.config'' else ''default''),
        (if side then AObj [(''viewColumn'', AColumn Beside), (''preview'', ABool False)]
         else AObj [])]"

text \<open>\<open>showEditor\<close> of \<open>extension.ts\<close>; an option left out defaults to \<open>false\<close>.\<close>

definition showEditor :: "flat_host \<Rightarrow> ShowEditorOptions \<Rightarrow> unit prog" where
  "showEditor h options =
     (let preview = (case isPreview options of None \<Rightarrow> False | Some b \<Rightarrow> b);
          side = (case onSide options of None \<Rightarrow> False | Some b \<Rightarrow> b)
      in andThen (lift (workspaceRootUri h)) (\<lambda>root.
           case root of
             None \<Rightarrow> return ()
           | Some root \<Rightarrow> emit (openWith h root preview side)))"

text \<open>Node's \<open>fs\<close>, on the files and directories of the state.\<close>

definition existsSync :: "world \<Rightarrow> string \<Rightarrow> bool" where
  "existsSync w p \<longleftrightarrow> files w p \<noteq> None \<or> p \<in> set (dirs w)"

definition mkdirSync :: "flat_host \<Rightarrow> string \<Rightarrow> unit prog" where
  "mkdirSync h p w =
     (case fault h (MkdirSync p) of
        Some e \<Rightarrow> (Inl e, w\<lparr>trace := trace w @ [MkdirSync p]\<rparr>)
      | None \<Rightarrow> (Inr (), w\<lparr>dirs := p # dirs w, trace := trace w @ [MkdirSync p]\<rparr>))"

definition writeFileSync :: "flat_host \<Rightarrow> string \<Rightarrow> string \<Rightarrow> unit prog" where
  "writeFileSync h p content w =
     (case fault h (WriteFileSync p content) of
        Some e \<Rightarrow> (Inl e, w\<lparr>trace := trace w @ [WriteFileSync p content]\<rparr>)
      | None \<Rightarrow>
          (Inr (), w\<lparr>files := (files w)(p \<mapsto> content),
                     trace := trace w @ [WriteFileSync p content]\<rparr>))"

definition flatStub :: jsval where
  "flatStub =
     JObj [
       (''name'', JStr ''data''),
       (''on'', JObj [
          (''schedule'', JArr [JObj [(''cron'', JStr ''0 0 * * *'')]]),
          (''workflow_dispatch'', JObj []),
          (''push'', JObj [(''paths'', JArr [JStr ''.github/workflows/flat.yml''])])]),
       (''jobs'', JObj [
          (''scheduled'', JObj [
             (''runs-on'', JStr ''ubuntu-latest''),
             (''steps'', JArr [
                JObj [(''name'', JStr ''Setup deno''),
                      (''uses'', JStr ''denoland/setup-deno@main''),
                      (''with'', JObj [(''deno-version'', JStr ''v1.10.x'')])],
                JObj [(''name'', JStr ''Check out repo''),
                      (''uses'', JStr ''actions/checkout@v2'')]])])])]"

definition initializeFlatYml :: "flat_host \<Rightarrow> unit prog" where
  "initializeFlatYml h w =
     (case workspaceFolders h of
        None \<Rightarrow> (Inr (), w)
      | Some folders \<Rightarrow>
          (case folders of
             [] \<Rightarrow> (Inl (TypeError ''Cannot read properties of undefined (reading uri)''), w)
           | rootPath # _ \<Rightarrow>
               (let workflowsDir = path_join h [fsPath rootPath, ''.github/workflows''];
                    flatYmlPath = path_join h [workflowsDir, ''flat.yml'']
                in if existsSync w flatYmlPath
                   then showEditor h \<lparr>isPreview = Some True, onSide = None\<rparr> w
                   else
                     andThen (mkdirSync h workflowsDir) (\<lambda>_.
                     andThen (writeFileSync h (path_join h [workflowsDir, ''flat.yml''])
                                (stringify h flatStub)) (\<lambda>_.
                       showEditor h \<lparr>isPreview = Some True, onSide = None\<rparr>)) w)))"

text \<open>\<open>s.substring(s.lastIndexOf('/') + 1)\<close>.\<close>

definition after_last_slash :: "string \<Rightarrow> string" where
  "after_last_slash s = rev (takeWhile (\<lambda>c. c \<noteq> CHR ''/'') (rev s))"

definition getHtmlForWebview :: "flat_host \<Rightarrow> editor_html prog" where
  "getHtmlForWebview h =
     (let scriptUri = asWebviewUri h (Uri_joinPath h (extensionUri h) [''out/webviews/index.js'']);
          styleVSCodeUri =
            asWebviewUri h (Uri_joinPath h (extensionUri h) [''out/webviews/index.css'']);
          codiconsUri =
            asWebviewUri h (Uri_joinPath h (extensionUri h) [''out/webviews/public/codicon.css'']);
          nonce = getNonce h
      in andThen (lift (workspaceRootUri h)) (\<lambda>root.
           case root of
             None \<Rightarrow> throw (Error ''No workspace open'')
           | Some root \<Rightarrow>
               andThen (request (OpenTextDocument (flatFileUri h root))
                          (openTextDocument h (flatFileUri h root))) (\<lambda>document.
                 let dirName = after_last_slash (path root);
                     gitRepo = ''Microsoft/azuredatastudio''
                 in return \<lparr>html_cspSource = cspSource h, html_nonce = nonce,
                             html_styleVSCodeUri = styleVSCodeUri,
                             html_codiconsUri = codiconsUri, html_dirName = dirName,
                             html_gitRepo = gitRepo, html_scriptUri = scriptUri\<rparr>)))"

text \<open>
  \<open>debouncedSave\<close> builds a debounced function and drops it without calling it: nothing
  is saved.
\<close>

definition debouncedSave :: "text_document \<Rightarrow> unit prog" where
  "debouncedSave document = return ()"

definition serializeWorkflow :: "flat_host \<Rightarrow> jsval \<Rightarrow> string" where
  "serializeWorkflow h data = stringify h data"

definition updateTextDocument :: "flat_host \<Rightarrow> text_document \<Rightarrow> jsval \<Rightarrow> unit prog" where
  "updateTextDocument h _ data =
     andThen (lift (workspaceRootUri h)) (\<lambda>root.
       case root of
         None \<Rightarrow> throw (Error ''No workspace open'')
       | Some root \<Rightarrow>
           andThen (request (OpenTextDocument (flatFileUri h root))
                      (openTextDocument h (flatFileUri h root))) (\<lambda>document.
             let currentText = getText document;
                 newText = serializeWorkflow h data
             in if currentText = newText then return ()
                else
                  andThen (await_call h
                             (ApplyEdit (document_uri document)
                                (Range 0 0 (lineCount document) 0) newText)) (\<lambda>_.
                    debouncedSave document)))"

text \<open>
  The method \<open>FlatConfigEditor.showEditor\<close>, called with the data of a webview message:
  the options are destructured from it, a property that is \<open>undefined\<close> defaults to
  \<open>false\<close>.
\<close>

definition FlatConfigEditor_showEditor :: "flat_host \<Rightarrow> jsval \<Rightarrow> unit prog" where
  "FlatConfigEditor_showEditor h options =
     andThen (lift (js_get options ''isPreview'')) (\<lambda>p.
     andThen (lift (js_get options ''onSide'')) (\<lambda>s.
       let preview = (if p = JUndefined then JBool False else p);
           side = (if s = JUndefined then JBool False else s)
       in andThen (lift (workspaceRootUri h)) (\<lambda>root.
            case root of
              None \<Rightarrow> return ()
            | Some root \<Rightarrow> emit (openWith h root (truthy preview) (truthy side)))))"

text \<open>\<open>s.split(sep)\<close>: the pieces between the occurrences of \<open>sep\<close>, found left to right.\<close>

fun split_from :: "string \<Rightarrow> string \<Rightarrow> string \<Rightarrow> string list" where
  "split_from sep piece [] = [rev piece]"
| "split_from sep piece (c # cs) =
     (if take (length sep) (c # cs) = sep
      then rev piece # split_from sep [] (drop (length sep - 1) cs)
      else split_from sep (c # piece) cs)"

definition js_split :: "string \<Rightarrow> string \<Rightarrow> string list" where
  "js_split s sep = (if sep = [] then map (\<lambda>c. [c]) s else split_from sep [] s)"

text \<open>
  \<open>`.${file.split(workspaceRootUri.path)[1]}`\<close>: a piece that is missing is
  \<open>undefined\<close>, which the template prints as such.
\<close>

definition parsedFile :: "string \<Rightarrow> string \<Rightarrow> string" where
  "parsedFile rootPath file =
     ''.'' @ (case js_split file rootPath of _ # piece # _ \<Rightarrow> piece | _ \<Rightarrow> ''undefined'')"

definition loadFiles :: "flat_host \<Rightarrow> unit prog" where
  "loadFiles h =
     andThen (lift (workspaceRootUri h)) (\<lambda>root.
       case root of
         None \<Rightarrow> return ()
       | Some root \<Rightarrow>
           (let patterns =
                  [path root @ ''/**/*'',
                   ''!'' @ path root @ ''/.git'',
                   ''!'' @ path root @ ''/.vscode'',
                   ''!'' @ path root @ ''/**/node_modules'']
            in andThen (request (FastGlob patterns) (fg h patterns)) (\<lambda>files.
                 let parsedFiles = map (parsedFile (path root)) files
                 in await_call h
                      (PostMessage (JObj [(''command'', JStr ''updateFiles''),
                                          (''files'', JArr (map JStr parsedFiles))])))))"

definition loadFileContents :: "flat_host \<Rightarrow> jsval \<Rightarrow> unit prog" where
  "loadFileContents h filePath =
     andThen (lift (workspaceRootUri h)) (\<lambda>root.
       case root of
         None \<Rightarrow> return ()
       | Some root \<Rightarrow>
           if \<not> truthy filePath then return ()
           else
             andThen (lift (as_string filePath)) (\<lambda>segment.
               let fileUri = Uri_joinPath h root [segment]
               in andThen (request (OpenTextDocument fileUri) (openTextDocument h fileUri))
                    (\<lambda>document.
                      let rawText = getText document
                      in await_call h
                           (PostMessage (JObj [(''command'', JStr ''returnFileContents''),
                                               (''file'', filePath),
                                               (''contents'', JStr rawText)])))))"

definition loadUrlContents :: "flat_host \<Rightarrow> jsval \<Rightarrow> unit prog" where
  "loadUrlContents h url =
     (if \<not> truthy url then return ()
      else
        andThen (request (Fetch url) (fetch h url)) (\<lambda>contents.
          await_call h
            (PostMessage (JObj [(''command'', JStr ''returnUrlContents''),
                                (''url'', url),
                                (''contents'', JStr contents)]))))"

definition updateWebviewState :: "flat_host \<Rightarrow> text_document \<Rightarrow> unit prog" where
  "updateWebviewState h document =
     (let rawFlatYaml = getText document
      in andThen (lift (parse h rawFlatYaml)) (\<lambda>parsedConfig.
           emit (PostMessage (JObj [(''command'', JStr ''updateState''),
                                    (''config'', parsedConfig)]))))"

definition updateWebview :: "flat_host \<Rightarrow> text_document \<Rightarrow> unit prog" where
  "updateWebview h document =
     (if activeTextEditor h \<noteq> None
      then andThen (getHtmlForWebview h) (\<lambda>html. emit (SetHtml html))
      else
        (let rawFlatYaml = getText document
         in andThen (lift (parse h rawFlatYaml)) (\<lambda>parsedConfig.
              emit (PostMessage (JObj [(''command'', JStr ''updateState''),
                                       (''config'', parsedConfig)])))))"

text \<open>
  The host's getter \<open>webviewPanel.webview\<close> throws once \<open>dispose()\<close> has run on the
  panel.
\<close>

definition webview :: "bool \<Rightarrow> unit prog" where
  "webview disposed = (if disposed then throw (Error ''Webview is disposed'') else return ())"


text \<open>The listener for the messages of the webview: the \<open>switch\<close> on \<open>e.type\<close>.\<close>

definition onDidReceiveMessage :: "flat_host \<Rightarrow> text_document \<Rightarrow> webview_message \<Rightarrow> unit prog" where
  "onDidReceiveMessage h document e =
     (if msg_type e = JStr ''openEditor'' then FlatConfigEditor_showEditor h (msg_data e)
      else if msg_type e = JStr ''updateText''
        then detached (updateTextDocument h document (msg_data e))
      else if msg_type e = JStr ''storeSecret'' then emit (ConsoleLog ''storing secret'')
      else if msg_type e = JStr ''refreshFiles'' then detached (loadFiles h)
      else if msg_type e = JStr ''getFileContents''
        then detached (loadFileContents h (msg_data e))
      else if msg_type e = JStr ''refreshState'' then detached (updateWebviewState h document)
      else if msg_type e = JStr ''getUrlContents''
        then detached (loadUrlContents h (msg_data e))
      else if msg_type e = JStr ''refreshGitDetails''
        then andThen (getHtmlForWebview h) (\<lambda>html. emit (SetHtml html))
      else if msg_type e = JStr ''previewFile''
        then
          andThen (lift (workspaceRootUri h)) (\<lambda>root.
            case root of
              None \<Rightarrow> return ()
            | Some root \<Rightarrow>
                andThen (lift (as_string (msg_data e))) (\<lambda>segment.
                  let target = Uri_joinPath h root [segment]
                  in andThen (request (OpenTextDocument target) (openTextDocument h target))
                       (\<lambda>doc. emit (ShowTextDocument doc None))))
      else return ())"

section \<open>Creating an Azure Function with a SQL binding\<close>

text \<open>
  The object \<open>waitForNewHostFile\<close> and \<open>waitForNewFunctionFile\<close> hand out. \<open>filePromise\<close>
  is the outcome of awaiting it in a race against the timeout promise: the path of the
  new file, or the rejection (of the watcher's promise or of the timeout).
\<close>

record IFileFunctionObject =
  filePromise :: "error + string"
  watcherDisposable :: nat

text \<open>
  The constants and helpers of \<open>../common\<close>, and what the user and the Azure Functions
  extension answer: whether the extension API is there, the project file at the first
  (\<open>0\<close>) and the second (\<open>1\<close>) call of \<open>getAzureFunctionProject\<close>, the button picked in
  the error message, the two watcher objects, the unique file name, the text entered in
  the input box (\<open>None\<close> when dismissed), and the binding picked.
\<close>

record az_host = vscode_host +
  learnMore :: string
  createProject :: string
  azureFunctionsProjectMustBeOpened :: string
  sqlBindingsDoc :: string
  errorNewAzureFunction :: string
  sqlConnectionString :: string
  formatString :: "string \<Rightarrow> string \<Rightarrow> string"
  generateQuotedFullName :: "string \<Rightarrow> string \<Rightarrow> string"
  dirname :: "string \<Rightarrow> string"
  getAzureFunctionsExtensionApi :: "error + bool"
  getAzureFunctionProject :: "nat \<Rightarrow> error + string option"
  projectCreate :: "error + string option"
  waitForNewHostFile :: "error + IFileFunctionObject"
  waitForNewFunctionFile :: "string \<Rightarrow> error + IFileFunctionObject"
  getUniqueFileName :: "string \<Rightarrow> string \<Rightarrow> error + string"
  showInputBox :: "string \<Rightarrow> error + string option"
  showQuickPick :: "error + binding_type option"

text \<open>A string that may be \<open>undefined\<close> is truthy when it is there and not empty.\<close>

fun truthy_string :: "string option \<Rightarrow> bool" where
  "truthy_string None = False"
| "truthy_string (Some s) = (s \<noteq> [])"

text \<open>Asking the host for a watcher: when it answers, the watcher exists.\<close>

definition watcher_request :: "host_call \<Rightarrow> error + IFileFunctionObject \<Rightarrow> IFileFunctionObject prog" where
  "watcher_request c r =
     andThen (request c r) (\<lambda>obj.
     andThen (request (WatcherCreated (watcherDisposable obj)) (Inr ())) (\<lambda>_. return obj))"

text \<open>
  The block that starts the project-creation flow. \<open>newHostProjectFile\<close> is assigned
  inside the \<open>try\<close>: when \<open>waitForNewHostFile\<close> throws, the \<open>catch\<close> shows the message
  and returns, and the \<open>finally\<close> then reads \<open>watcherDisposable\<close> of \<open>undefined\<close>, whose
  error replaces the return. Otherwise the rest of the \<open>try\<close> runs with the watcher in
  hand, and the \<open>finally\<close> disposes it.
\<close>

definition createProjectFlow :: "az_host \<Rightarrow> string option \<Rightarrow> string option flow prog" where
  "createProjectFlow h projectFile =
     (let on_error = (\<lambda>err.
            andThen (emit (ShowErrorMessage
                             (formatString h (errorNewAzureFunction h) (message err)) []))
              (\<lambda>_. return Return))
      in (\<lambda>w.
           case watcher_request WaitForNewHostFile (waitForNewHostFile h) w of
             (Inl err, w') \<Rightarrow>
               try_finally (on_error err)
                 (throw (TypeError ''Cannot read properties of undefined (reading watcherDisposable)''))
                 w'
           | (Inr newHostProjectFile, w') \<Rightarrow>
               try_finally
                 (try_catch
                    (andThen (await_call h (CreateFunction [])) (\<lambda>_.
                     andThen (lift (filePromise newHostProjectFile)) (\<lambda>hostFile.
                       if hostFile \<noteq> []
                       then andThen (request GetAzureFunctionProject (getAzureFunctionProject h 1))
                              (\<lambda>project. return (Next project))
                       else return (Next projectFile))))
                    on_error)
                 (emit (Dispose (watcherDisposable newHostProjectFile)))
                 w'))"

definition createAzureFunction :: "az_host \<Rightarrow> string \<Rightarrow> string \<Rightarrow> string \<Rightarrow> unit prog" where
  "createAzureFunction h connectionString schema table =
     andThen (request GetAzureFunctionsExtensionApi (getAzureFunctionsExtensionApi h))
       (\<lambda>azureFunctionApi.
     if \<not> azureFunctionApi then return ()
     else
     andThen (request GetAzureFunctionProject (getAzureFunctionProject h 0)) (\<lambda>projectFile.
     andThen
       (if \<not> truthy_string projectFile
        then
          andThen (request (ShowErrorMessage (azureFunctionsProjectMustBeOpened h)
                              [createProject h, learnMore h])
                     (projectCreate h)) (\<lambda>choice.
            if choice = Some (learnMore h)
            then andThen (emit (ExecuteCommand ''vscode.open'' [AStr (sqlBindingsDoc h)]))
                   (\<lambda>_. return Return)
            else if choice = Some (createProject h) then createProjectFlow h projectFile
            else return (Next projectFile))
        else return (Next projectFile)) (\<lambda>block.
     case block of
       Return \<Rightarrow> return ()
     | Next None \<Rightarrow> return ()
     | Next (Some projectFile) \<Rightarrow>
         if projectFile = [] then return ()
         else
         andThen (watcher_request (WaitForNewFunctionFile projectFile)
                    (waitForNewFunctionFile h projectFile)) (\<lambda>newFunctionFileObject.
         andThen
           (try_finally
              (andThen (request (GetUniqueFileName (dirname h projectFile) table)
                          (getUniqueFileName h (dirname h projectFile) table))
                 (\<lambda>uniqueFunctionName.
               andThen (request (ShowInputBox uniqueFunctionName)
                          (showInputBox h uniqueFunctionName)) (\<lambda>entered.
                 case entered of
                   None \<Rightarrow> return Return
                 | Some functionName \<Rightarrow>
                     if functionName = [] then return Return
                     else
                       andThen (await_call h
                                  (CreateFunction [(''language'', ''C#''),
                                                   (''templateId'', ''HttpTrigger''),
                                                   (''functionName'', functionName),
                                                   (''folderPath'', projectFile)])) (\<lambda>_.
                       andThen (lift (filePromise newFunctionFileObject)) (\<lambda>functionFile.
                         return (Next (functionName, functionFile)))))))
              (emit (Dispose (watcherDisposable newFunctionFileObject)))) (\<lambda>created.
         case created of
           Return \<Rightarrow> return ()
         | Next (functionName, functionFile) \<Rightarrow>
             andThen (request ShowQuickPick (showQuickPick h)) (\<lambda>selectedBinding.
               case selectedBinding of
                 None \<Rightarrow> return ()
               | Some bindingType \<Rightarrow>
                   andThen (await_call h (AddNugetReferenceToProjectFile projectFile)) (\<lambda>_.
                   andThen (await_call h
                              (AddConnectionStringToConfig connectionString projectFile)) (\<lambda>_.
                     let objectName = generateQuotedFullName h schema table
                     in andThen (await_call h GetAzureFunctionService) (\<lambda>_.
                        andThen (await_call h
                                   (AddSqlBinding bindingType functionFile functionName objectName
                                      (sqlConnectionString h))) (\<lambda>_.
                          emit (OverwriteAzureFunctionMethodBody functionFile)))))))))))"

text \<open>
  The watchers of a sequence of calls that are still live at its end: a watcher becomes
  live when the host hands it out, and stops being live when its disposable is disposed.
\<close>

fun undisposed :: "host_call list \<Rightarrow> nat list \<Rightarrow> nat list" where
  "undisposed [] live = live"
| "undisposed (WatcherCreated d # t) live = undisposed t (d # live)"
| "undisposed (Dispose d # t) live = undisposed t (remove1 d live)"
| "undisposed (_ # t) live = undisposed t live"

section \<open>Sample hosts\<close>

text \<open>
  Concrete hosts and inputs on which the functions above are evaluated: a repository at
  \<open>/home/user/repo\<close> with a \<open>flat.yml\<close>, a documentation folder with one Markdown file, and
  a user who starts the project-creation flow.
\<close>

definition empty_world :: world where
  "empty_world = \<lparr>files = (\<lambda>_. None), dirs = [], trace = []\<rparr>"

text \<open>
  A printer in block style stands in for \<open>stringify\<close> of the \<open>yaml\<close> package on the
  sample host; it prints what the package prints for maps and sequences of plain strings,
  the values used below. Joining with a slash stands in for \<open>path.join\<close>.
\<close>

fun show_nat :: "nat \<Rightarrow> string" where
  "show_nat n =
     (if n < 10 then [char_of (48 + n)]
      else show_nat (n div 10) @ [char_of (48 + n mod 10)])"

fun join_with :: "string \<Rightarrow> string list \<Rightarrow> string" where
  "join_with sep [] = []"
| "join_with sep [x] = x"
| "join_with sep (x # y # ys) = x @ sep @ join_with sep (y # ys)"

definition is_block :: "jsval \<Rightarrow> bool" where
  "is_block v = (case v of JArr (_ # _) \<Rightarrow> True | JObj (_ # _) \<Rightarrow> True | _ \<Rightarrow> False)"

definition indent :: "string \<Rightarrow> string" where
  "indent l = ''  '' @ l"

fun under_dash :: "string list \<Rightarrow> string list" where
  "under_dash [] = [''-'']"
| "under_dash (l # ls) = (''- '' @ l) # map indent ls"

fun yaml_lines :: "jsval \<Rightarrow> string list" where
  "yaml_lines JUndefined = [''null'']"
| "yaml_lines JNull = [''null'']"
| "yaml_lines (JBool b) = [if b then ''true'' else ''false'']"
| "yaml_lines (JNum n) = [if n < 0 then ''-'' @ show_nat (nat (- n)) else show_nat (nat n)]"
| "yaml_lines (JStr s) = [s]"
| "yaml_lines (JArr vs) =
     (if vs = [] then [''[]'']
      else concat (map (\<lambda>v. under_dash (yaml_lines v)) vs))"
| "yaml_lines (JObj kvs) =
     (if kvs = [] then [''{}'']
      else concat (map (\<lambda>(k, v). if is_block v then (k @ '':'') # map indent (yaml_lines v)
                                   else [k @ '': '' @ concat (yaml_lines v)]) kvs))"

definition block_yaml :: "jsval \<Rightarrow> string" where
  "block_yaml v = concat (map (\<lambda>l. l @ ''\<newline>'') (yaml_lines v))"

definition sample_join :: "string list \<Rightarrow> string" where
  "sample_join ps = join_with ''/'' ps"

definition repo :: uri where
  "repo = file_uri ''/home/user/repo''"

definition flat_yml :: text_document where
  "flat_yml = \<lparr>document_uri = file_uri ''/home/user/repo/.github/workflows/flat.yml'',
               languageId = ''yaml'', getText = ''name: flat\<newline>'', lineCount = 2\<rparr>"

definition sample_flat_host :: flat_host where
  "sample_flat_host =
     \<lparr>openTextDocument =
        (\<lambda>u. if u = document_uri flat_yml then Inr flat_yml
             else Inl (HostError ''FileNotFound'')),
      activeTextEditor = None,
      fault = (\<lambda>_. None),
      stringify = block_yaml,
      parse =
        (\<lambda>s. if s = ''name: flat\<newline>'' then Inr (JObj [(''name'', JStr ''flat'')])
             else Inl (Error ''YAMLParseError'')),
      path_join = sample_join,
      workspaceFolders = Some [repo],
      extensionUri = file_uri ''/extensions/react-test'',
      asWebviewUri = path,
      cspSource = ''vscode-webview:'',
      getNonce = ''nonce'',
      fg = (\<lambda>_. Inr [''/home/user/repo/README.md'']),
      fetch = (\<lambda>_. Inl (HostError ''offline''))\<rparr>"

text \<open>The file system of the sample repository once \<open>flat.yml\<close> is there.\<close>

definition repo_world :: world where
  "repo_world =
     \<lparr>files = [''/home/user/repo/.github/workflows/flat.yml'' \<mapsto> ''name: flat\<newline>''],
      dirs = [''/home/user/repo/.github/workflows'', ''/home/user/repo/.github'',
              ''/home/user/repo''],
      trace = []\<rparr>"

text \<open>The sample editor host without a workspace, and with a repository that has no \<open>flat.yml\<close>.\<close>

definition no_workspace_flat_host :: flat_host where
  "no_workspace_flat_host = sample_flat_host\<lparr>workspaceFolders := None\<rparr>"

definition missing_file_flat_host :: flat_host where
  "missing_file_flat_host =
     sample_flat_host\<lparr>openTextDocument := (\<lambda>_. Inl (HostError ''FileNotFound''))\<rparr>"

text \<open>A workspace that is open with no folder in it.\<close>

definition empty_workspace_flat_host :: flat_host where
  "empty_workspace_flat_host = sample_flat_host\<lparr>workspaceFolders := Some []\<rparr>"

text \<open>The extension of the last path segment, from its last dot on.\<close>

definition sample_extname :: "string \<Rightarrow> string" where
  "sample_extname p =
     (let base = after_last_slash p
      in if CHR ''.'' \<in> set base
         then CHR ''.'' # rev (takeWhile (\<lambda>c. c \<noteq> CHR ''.'') (rev base))
         else [])"

definition readme_md :: text_document where
  "readme_md = \<lparr>document_uri = file_uri ''/docs/readme.md'', languageId = ''markdown'',
                 getText = ''# Readme'', lineCount = 1\<rparr>"

definition sample_md_host :: md_host where
  "sample_md_host =
     \<lparr>openTextDocument =
        (\<lambda>u. if u = file_uri ''/docs/readme.md'' then Inr readme_md
             else Inl (HostError ''FileNotFound'')),
      activeTextEditor = None,
      fault = (\<lambda>_. None),
      isMarkdownFile = (\<lambda>d. languageId d = ''markdown''),
      extname = sample_extname,
      decodeURIComponent = Inr,
      Uri_parse = file_uri,
      links_openLocation = (\<lambda>_. ''currentGroup''),
      stat =
        (\<lambda>u. if u = file_uri ''/docs/readme.md'' then Inr File
             else Inl (HostError ''FileNotFound'')),
      showTextDocument = (\<lambda>d _. Inr d),
      toc_lookup = (\<lambda>_ _. Inr None)\<rparr>"

definition readme_link :: OpenDocumentLinkArgs where
  "readme_link =
     \<lparr>args_path = ''/docs/readme'', args_fragment = [],
      args_fromResource = ''/docs/index.md''\<rparr>"

definition sample_az_host :: az_host where
  "sample_az_host =
     \<lparr>openTextDocument = (\<lambda>_. Inl (HostError ''FileNotFound'')),
      activeTextEditor = None,
      fault = (\<lambda>_. None),
      learnMore = ''Learn more'',
      createProject = ''Create Azure Function Project'',
      azureFunctionsProjectMustBeOpened = ''An Azure Functions project must be opened'',
      sqlBindingsDoc = ''https://aka.ms/sqlbindings'',
      errorNewAzureFunction = ''Error creating new Azure Function: '',
      sqlConnectionString = ''SqlConnectionString'',
      formatString = (\<lambda>template a. template @ a),
      generateQuotedFullName = (\<lambda>schema table. ''['' @ schema @ ''].['' @ table @ '']''),
      dirname = (\<lambda>p. ''/proj''),
      getAzureFunctionsExtensionApi = Inr True,
      getAzureFunctionProject = (\<lambda>n. if n = 0 then Inr None else Inr (Some ''/proj/app.csproj'')),
      projectCreate = Inr (Some ''Create Azure Function Project''),
      waitForNewHostFile = Inr \<lparr>filePromise = Inr ''/proj/host.json'', watcherDisposable = 1\<rparr>,
      waitForNewFunctionFile = (\<lambda>_. Inr \<lparr>filePromise = Inr ''/proj/Orders.cs'', watcherDisposable = 2\<rparr>),
      getUniqueFileName = (\<lambda>_ table. Inr table),
      showInputBox = (\<lambda>v. Inr (Some v)),
      showQuickPick = Inr (Some BindingType_input)\<rparr>"

definition cancelling_az_host :: az_host where
  "cancelling_az_host =
     sample_az_host\<lparr>fault :=
       (\<lambda>c. if c = CreateFunction [] then Some (Error ''cancelled'') else None)\<rparr>"

text \<open>
  The sample user when the new host file does not appear before the timeout, and when
  the project cannot be looked up after it has been created.
\<close>

definition timeout_az_host :: az_host where
  "timeout_az_host =
     sample_az_host\<lparr>waitForNewHostFile :=
       Inr \<lparr>filePromise = Inl (Error ''Timed out waiting for the host file''),
            watcherDisposable = 1\<rparr>\<rparr>"

definition lost_project_az_host :: az_host where
  "lost_project_az_host =
     sample_az_host\<lparr>getAzureFunctionProject :=
       (\<lambda>n. if n = 0 then Inr None else Inl (HostError ''No project found''))\<rparr>"

section \<open>Watchers that stay live\<close>

text \<open>
  A program leaks no watcher when the calls it adds, whatever its outcome, leave the live
  watchers as they were.
\<close>

definition leak_free :: "'a prog \<Rightarrow> bool" where
  "leak_free m \<longleftrightarrow>
     (\<forall>w. \<exists>ev. snd (m w) = w\<lparr>trace := trace w @ ev\<rparr> \<and> (\<forall>live. undisposed ev live = live))"

section \<open>Evaluation and structure lemmas\<close>

lemmas prog_defs =
  return_def throw_def andThen_def try_catch_def try_finally_def detached_def lift_def
  request_def await_call_def emit_def

lemmas sample_flat_defs =
  sample_flat_host_def no_workspace_flat_host_def missing_file_flat_host_def
  empty_workspace_flat_host_def flat_yml_def repo_def empty_world_def file_uri_def
  sample_join_def Uri_joinPath_def flatFileUri_def workspaceRootUri_def

lemmas block_yaml_defs = block_yaml_def is_block_def indent_def

lemmas sample_md_defs =
  sample_md_host_def readme_md_def readme_link_def empty_world_def file_uri_def Uri_file_def
  sample_extname_def after_last_slash_def

lemmas sample_az_defs =
  sample_az_host_def cancelling_az_host_def timeout_az_host_def lost_project_az_host_def
  empty_world_def

lemma undisposed_append: "undisposed (a @ b) live = undisposed b (undisposed a live)"
  by (induction a live rule: undisposed.induct) simp_all

lemma leak_freeI:
  assumes "\<And>w. \<exists>ev. snd (m w) = w\<lparr>trace := trace w @ ev\<rparr> \<and> (\<forall>live. undisposed ev live = live)"
  shows "leak_free m"
  using assms by (simp add: leak_free_def)

lemma leak_freeE:
  assumes "leak_free m"
  obtains ev where "snd (m w) = w\<lparr>trace := trace w @ ev\<rparr>"
    and "\<And>live. undisposed ev live = live"
proof -
  from assms
  have "\<exists>ev. snd (m w) = w\<lparr>trace := trace w @ ev\<rparr> \<and> (\<forall>live. undisposed ev live = live)"
    by (simp add: leak_free_def)
  then show thesis using that by blast
qed

lemma leak_free_return: "leak_free (return x)"
  by (rule leak_freeI, rule exI[of _ "[]"]) (simp add: return_def)

lemma leak_free_throw: "leak_free (throw e)"
  by (rule leak_freeI, rule exI[of _ "[]"]) (simp add: throw_def)

lemma leak_free_lift: "leak_free (lift r)"
  by (rule leak_freeI, rule exI[of _ "[]"]) (simp add: lift_def)

lemma leak_free_request:
  assumes "\<And>live. undisposed [c] live = live"
  shows "leak_free (request c r)"
  by (rule leak_freeI, rule exI[of _ "[c]"]) (simp add: request_def assms)

lemma leak_free_await_call:
  assumes "\<And>live. undisposed [c] live = live"
  shows "leak_free (await_call h c)"
  unfolding await_call_def by (rule leak_free_request) (rule assms)

lemma leak_free_emit:
  assumes "\<And>live. undisposed [c] live = live"
  shows "leak_free (emit c)"
  unfolding emit_def by (rule leak_free_request) (rule assms)

lemma leak_free_andThen:
  assumes "leak_free m" and "\<And>x. leak_free (f x)"
  shows "leak_free (andThen m f)"
proof (rule leak_freeI)
  fix w
  obtain r w1 where mw: "m w = (r, w1)" by (cases "m w")
  from assms(1) obtain ev where "snd (m w) = w\<lparr>trace := trace w @ ev\<rparr>"
    and ev: "\<And>live. undisposed ev live = live" by (rule leak_freeE) blast
  with mw have w1: "w1 = w\<lparr>trace := trace w @ ev\<rparr>" by simp
  show "\<exists>ev. snd (andThen m f w) = w\<lparr>trace := trace w @ ev\<rparr> \<and> (\<forall>live. undisposed ev live = live)"
  proof (cases r)
    case (Inl e)
    with mw w1 ev show ?thesis
      by (intro exI[of _ ev]) (simp add: andThen_def)
  next
    case (Inr x)
    from assms(2)[of x] obtain ev' where "snd (f x w1) = w1\<lparr>trace := trace w1 @ ev'\<rparr>"
      and "\<And>live. undisposed ev' live = live" by (rule leak_freeE) blast
    with Inr mw w1 ev show ?thesis
      by (intro exI[of _ "ev @ ev'"]) (simp add: andThen_def undisposed_append)
  qed
qed

lemma leak_free_try_catch:
  assumes "leak_free m" and "\<And>e. leak_free (f e)"
  shows "leak_free (try_catch m f)"
proof (rule leak_freeI)
  fix w
  obtain r w1 where mw: "m w = (r, w1)" by (cases "m w")
  from assms(1) obtain ev where "snd (m w) = w\<lparr>trace := trace w @ ev\<rparr>"
    and ev: "\<And>live. undisposed ev live = live" by (rule leak_freeE) blast
  with mw have w1: "w1 = w\<lparr>trace := trace w @ ev\<rparr>" by simp
  show "\<exists>ev. snd (try_catch m f w) = w\<lparr>trace := trace w @ ev\<rparr> \<and> (\<forall>live. undisposed ev live = live)"
  proof (cases r)
    case (Inr x)
    with mw w1 ev show ?thesis
      by (intro exI[of _ ev]) (simp add: try_catch_def)
  next
    case (Inl e)
    from assms(2)[of e] obtain ev' where "snd (f e w1) = w1\<lparr>trace := trace w1 @ ev'\<rparr>"
      and "\<And>live. undisposed ev' live = live" by (rule leak_freeE) blast
    with Inl mw w1 ev show ?thesis
      by (intro exI[of _ "ev @ ev'"]) (simp add: try_catch_def undisposed_append)
  qed
qed

lemma leak_free_try_finally:
  assumes "leak_free m" and "leak_free f"
  shows "leak_free (try_finally m f)"
proof (rule leak_freeI)
  fix w
  obtain r w1 where mw: "m w = (r, w1)" by (cases "m w")
  from assms(1) obtain ev where "snd (m w) = w\<lparr>trace := trace w @ ev\<rparr>"
    and ev: "\<And>live. undisposed ev live = live" by (rule leak_freeE) blast
  with mw have w1: "w1 = w\<lparr>trace := trace w @ ev\<rparr>" by simp
  obtain r' w2 where fw: "f w1 = (r', w2)" by (cases "f w1")
  from assms(2) obtain ev' where "snd (f w1) = w1\<lparr>trace := trace w1 @ ev'\<rparr>"
    and ev': "\<And>live. undisposed ev' live = live" by (rule leak_freeE) blast
  with fw have w2: "w2 = w1\<lparr>trace := trace w1 @ ev'\<rparr>" by simp
  from mw fw w1 w2 ev ev'
  show "\<exists>ev. snd (try_finally m f w) = w\<lparr>trace := trace w @ ev\<rparr> \<and> (\<forall>live. undisposed ev live = live)"
    by (intro exI[of _ "ev @ ev'"]) (simp add: try_finally_def undisposed_append split: sum.splits)
qed

text \<open>
  The bracket: between the watcher handed out and the disposal in the \<open>finally\<close>, the
  block may end in any way.
\<close>

lemma leak_free_dispose_finally:
  assumes call: "\<And>live. undisposed [c] live = live" and body: "leak_free body"
  shows "\<exists>ev. snd (try_finally body (emit (Dispose d))
                     (w\<lparr>trace := trace w @ [c, WatcherCreated d]\<rparr>))
               = w\<lparr>trace := trace w @ ev\<rparr> \<and> (\<forall>live. undisposed ev live = live)"
proof -
  let ?w1 = "w\<lparr>trace := trace w @ [c, WatcherCreated d]\<rparr>"
  obtain r w2 where bw: "body ?w1 = (r, w2)" by (cases "body ?w1")
  from body obtain ev where "snd (body ?w1) = ?w1\<lparr>trace := trace ?w1 @ ev\<rparr>"
    and ev: "\<And>live. undisposed ev live = live" by (rule leak_freeE) blast
  with bw have w2: "w2 = ?w1\<lparr>trace := trace ?w1 @ ev\<rparr>" by simp
  have balanced: "undisposed ([c] @ [WatcherCreated d] @ ev @ [Dispose d]) live = live" for live
    unfolding undisposed_append by (simp add: call ev)
  have "snd (try_finally body (emit (Dispose d)) ?w1)
          = w\<lparr>trace := trace w @ ([c] @ [WatcherCreated d] @ ev @ [Dispose d])\<rparr>"
    using bw w2 by (simp add: try_finally_def emit_def request_def)
  with balanced show ?thesis by blast
qed

lemma leak_free_bracket:
  assumes call: "\<And>live. undisposed [c] live = live"
    and body: "\<And>obj. leak_free (body obj)" and rest: "\<And>obj x. leak_free (k obj x)"
  shows "leak_free (andThen (watcher_request c r)
           (\<lambda>obj. andThen (try_finally (body obj) (emit (Dispose (watcherDisposable obj))))
                    (k obj)))"
proof (rule leak_freeI)
  fix w
  let ?m = "andThen (watcher_request c r)
           (\<lambda>obj. andThen (try_finally (body obj) (emit (Dispose (watcherDisposable obj))))
                    (k obj))"
  show "\<exists>ev. snd (?m w) = w\<lparr>trace := trace w @ ev\<rparr> \<and> (\<forall>live. undisposed ev live = live)"
  proof (cases r)
    case (Inl e)
    then show ?thesis
      by (intro exI[of _ "[c]"]) (simp add: andThen_def watcher_request_def request_def call)
  next
    case (Inr obj)
    let ?w1 = "w\<lparr>trace := trace w @ [c, WatcherCreated (watcherDisposable obj)]\<rparr>"
    let ?fin = "try_finally (body obj) (emit (Dispose (watcherDisposable obj)))"
    have run: "?m w = andThen ?fin (k obj) ?w1"
      using Inr by (simp add: andThen_def watcher_request_def request_def return_def)
    obtain r1 w2 where fw: "?fin ?w1 = (r1, w2)" by (cases "?fin ?w1")
    from leak_free_dispose_finally[OF call body, of obj "watcherDisposable obj" w]
    obtain ev where "snd (?fin ?w1) = w\<lparr>trace := trace w @ ev\<rparr>"
      and ev: "\<And>live. undisposed ev live = live" by blast
    with fw have w2: "w2 = w\<lparr>trace := trace w @ ev\<rparr>" by simp
    show ?thesis
    proof (cases r1)
      case (Inl e)
      with fw w2 ev show ?thesis unfolding run
        by (intro exI[of _ ev]) (simp add: andThen_def)
    next
      case (Inr x)
      from rest[of obj x] obtain ev' where "snd (k obj x w2) = w2\<lparr>trace := trace w2 @ ev'\<rparr>"
        and "\<And>live. undisposed ev' live = live" by (rule leak_freeE) blast
      with Inr fw w2 ev show ?thesis unfolding run
        by (intro exI[of _ "ev @ ev'"]) (simp add: andThen_def undisposed_append)
    qed
  qed
qed

lemma leak_free_if:
  assumes "c \<Longrightarrow> leak_free a" and "\<not> c \<Longrightarrow> leak_free b"
  shows "leak_free (if c then a else b)"
  using assms by simp

lemma leak_free_case_option:
  assumes "leak_free a" and "\<And>x. leak_free (b x)"
  shows "leak_free (case v of None \<Rightarrow> a | Some x \<Rightarrow> b x)"
  using assms by (cases v) simp_all

lemma leak_free_case_flow:
  assumes "leak_free a" and "\<And>x. leak_free (b x)"
  shows "leak_free (case v of Return \<Rightarrow> a | Next x \<Rightarrow> b x)"
  using assms by (cases v) simp_all

lemma leak_free_case_prod:
  assumes "\<And>x y. leak_free (b x y)"
  shows "leak_free (case v of (x, y) \<Rightarrow> b x y)"
  using assms by (cases v) simp

lemma leak_free_let:
  assumes "leak_free (f v)"
  shows "leak_free (let x = v in f x)"
  using assms by simp

lemmas leak_free_intros =
  leak_free_return leak_free_throw leak_free_lift leak_free_request leak_free_await_call
  leak_free_emit leak_free_andThen leak_free_try_catch leak_free_try_finally

lemmas leak_free_structure =
  leak_free_if leak_free_case_option leak_free_case_flow leak_free_case_prod leak_free_let

lemma leak_free_createProjectFlow: "leak_free (createProjectFlow h projectFile)"
proof (rule leak_freeI)
  fix w
  let ?on_error = "\<lambda>err. andThen (emit (ShowErrorMessage
                             (formatString h (errorNewAzureFunction h) (message err)) []))
              (\<lambda>_. return (Return :: string option flow))"
  let ?undefined = "throw (TypeError ''Cannot read properties of undefined (reading watcherDisposable)'')"
  show "\<exists>ev. snd (createProjectFlow h projectFile w) = w\<lparr>trace := trace w @ ev\<rparr>
             \<and> (\<forall>live. undisposed ev live = live)"
  proof (cases "waitForNewHostFile h")
    case (Inl err)
    let ?w1 = "w\<lparr>trace := trace w @ [WaitForNewHostFile]\<rparr>"
    have "leak_free (try_finally (?on_error err) ?undefined)"
      by (intro leak_free_intros) simp_all
    then obtain ev
      where "snd (try_finally (?on_error err) ?undefined ?w1) = ?w1\<lparr>trace := trace ?w1 @ ev\<rparr>"
        and "\<And>live. undisposed ev live = live" by (rule leak_freeE) blast
    with Inl show ?thesis
      by (intro exI[of _ "[WaitForNewHostFile] @ ev"])
         (simp add: createProjectFlow_def watcher_request_def andThen_def request_def Let_def
            undisposed_append)
  next
    case (Inr obj)
    let ?body = "try_catch
                    (andThen (await_call h (CreateFunction [])) (\<lambda>_.
                     andThen (lift (filePromise obj)) (\<lambda>hostFile.
                       if hostFile \<noteq> []
                       then andThen (request GetAzureFunctionProject (getAzureFunctionProject h 1))
                              (\<lambda>project. return (Next project))
                       else return (Next projectFile))))
                    ?on_error"
    have "leak_free ?body"
      by (intro leak_free_intros leak_free_structure) simp_all
    from leak_free_dispose_finally[OF _ this, of WaitForNewHostFile "watcherDisposable obj" w]
    obtain ev where "snd (try_finally ?body (emit (Dispose (watcherDisposable obj)))
            (w\<lparr>trace := trace w @ [WaitForNewHostFile, WatcherCreated (watcherDisposable obj)]\<rparr>))
          = w\<lparr>trace := trace w @ ev\<rparr>"
      and "\<And>live. undisposed ev live = live" by auto
    with Inr show ?thesis
      by (intro exI[of _ ev])
         (simp add: createProjectFlow_def watcher_request_def andThen_def request_def return_def
            Let_def)
  qed
qed

lemma leak_free_createAzureFunction:
  "leak_free (createAzureFunction h connectionString schema table)"
  unfolding createAzureFunction_def
  by (intro leak_free_bracket leak_free_intros leak_free_structure leak_free_createProjectFlow)
     simp_all

lemma Uri_file_refuses: "(\<exists>e. Uri_file p = Inl e) \<longleftrightarrow> take 4 p = ''////''"
proof (cases p)
  case Nil
  then show ?thesis by (simp add: Uri_file_def)
next
  case (Cons c0 p1)
  note p = this
  show ?thesis
  proof (cases p1)
    case Nil
    with p show ?thesis by (simp add: Uri_file_def)
  next
    case (Cons c1 p2)
    note p1 = this
    show ?thesis
    proof (cases p2)
      case Nil
      with p p1 show ?thesis by (simp add: Uri_file_def)
    next
      case (Cons c2 p3)
      note p2 = this
      show ?thesis
      proof (cases p3)
        case Nil
        with p p1 p2 show ?thesis
          by (auto simp add: Uri_file_def Let_def split: list.splits)
      next
        case (Cons c3 p4)
        with p p1 p2 show ?thesis
          by (auto simp add: Uri_file_def Let_def split: list.splits if_splits)
      qed
    qed
  qed
qed

lemma Uri_file_accepts:
  assumes "take 4 p \<noteq> ''////''"
  shows "\<exists>resource. Uri_file p = Inr resource"
proof (cases "Uri_file p")
  case (Inl e)
  then have "take 4 p = ''////''" using Uri_file_refuses[of p] by blast
  with assms show ?thesis by simp
next
  case (Inr resource)
  then show ?thesis by blast
qed

lemma take_4_with_md:
  assumes "take 4 (p @ ''.md'') = ''////''"
  shows "take 4 p = ''////''"
proof (cases "4 \<le> length p")
  case True
  with assms show ?thesis by simp
next
  case False
  then have "CHR ''.'' \<in> set (take 4 (p @ ''.md''))"
    by (cases p; cases "tl p"; cases "tl (tl p)"; cases "tl (tl (tl p))") auto
  with assms show ?thesis by simp
qed

lemma Uri_file_with_md:
  assumes "Uri_file p = Inr resource"
  shows "\<exists>resource'. Uri_file (p @ ''.md'') = Inr resource'"
proof -
  from assms have "take 4 p \<noteq> ''////''" using Uri_file_refuses[of p] by auto
  then have "take 4 (p @ ''.md'') \<noteq> ''////''" using take_4_with_md[of p] by blast
  then show ?thesis by (rule Uri_file_accepts)
qed

lemma tryResolveLinkToMarkdownFile_returns:
  assumes "Uri_file p = Inr resource"
  shows "\<exists>r. fst (tryResolveLinkToMarkdownFile h p w) = Inr r"
  using assms
  by (simp add: tryResolveLinkToMarkdownFile_def prog_defs Let_def
      split: sum.splits option.splits)



section \<open>The claims\<close>

subsection \<open>C1: an \<open>updateText\<close> message rewrites the document wholesale\<close>

text \<open>
  Claim C1 says that every \<open>updateText\<close> message, for every data value, applies an edit
  that replaces the whole document. It fails in three runs on the sample host. The
  document reads \<open>name: flat\<close> and a line break, which is what \<open>{name: 'flat'}\<close>
  serializes to: \<open>updateTextDocument\<close> compares the two and returns before any edit.
  Without a workspace \<open>updateTextDocument\<close> throws before it opens anything, and the
  handler, which does not await it, goes on. Where \<open>flat.yml\<close> cannot be opened, the
  only call made is the attempt to open it.
\<close>

theorem updateText_without_edit:
  "getText flat_yml = stringify sample_flat_host (JObj [(''name'', JStr ''flat'')])
   \<and> onDidReceiveMessage sample_flat_host flat_yml
        \<lparr>msg_type = JStr ''updateText'', msg_data = JObj [(''name'', JStr ''flat'')]\<rparr>
        empty_world
      = (Inr (), empty_world\<lparr>trace := [OpenTextDocument (document_uri flat_yml)]\<rparr>)
   \<and> onDidReceiveMessage no_workspace_flat_host flat_yml
        \<lparr>msg_type = JStr ''updateText'', msg_data = JObj [(''name'', JStr ''data'')]\<rparr>
        empty_world
      = (Inr (), empty_world)
   \<and> onDidReceiveMessage missing_file_flat_host flat_yml
        \<lparr>msg_type = JStr ''updateText'', msg_data = JObj [(''name'', JStr ''data'')]\<rparr>
        empty_world
      = (Inr (), empty_world\<lparr>trace := [OpenTextDocument (document_uri flat_yml)]\<rparr>)"
  by (simp add: onDidReceiveMessage_def updateTextDocument_def serializeWorkflow_def
      debouncedSave_def prog_defs Let_def sample_flat_defs block_yaml_defs)

text \<open>
  Claim C1, amended: for every \<open>updateText\<close> message and every data value, the handler
  applies at most one workspace edit, and the edit it applies replaces the range from
  (0,0) to (lineCount,0) of \<open>flat.yml\<close> with the serialization of the incoming data. It
  applies the edit exactly when a workspace folder is open, \<open>flat.yml\<close> can be opened
  and its text differs from the serialization; otherwise it applies none: with the text
  already equal, or the document not opened, the only call is the one that opens the
  document, and without a workspace there is no call at all.
\<close>

theorem updateText_replaces_whole_document:
  assumes "msg_type e = JStr ''updateText''"
  shows "onDidReceiveMessage h document e w =
           (Inr (),
            w\<lparr>trace := trace w @
               (case workspaceFolders h of
                  Some (root # _) \<Rightarrow>
                    OpenTextDocument (flatFileUri h root) #
                      (case openTextDocument h (flatFileUri h root) of
                         Inr flat \<Rightarrow>
                           if getText flat = stringify h (msg_data e) then []
                           else [ApplyEdit (document_uri flat) (Range 0 0 (lineCount flat) 0)
                                   (stringify h (msg_data e))]
                       | Inl _ \<Rightarrow> [])
                | _ \<Rightarrow> [])\<rparr>)"
  using assms
  by (simp add: onDidReceiveMessage_def updateTextDocument_def serializeWorkflow_def
      debouncedSave_def workspaceRootUri_def prog_defs Let_def
      split: option.splits list.splits sum.splits)

text \<open>
  Witness for C1: on the sample host, data that serializes to \<open>name: data\<close> replaces the
  two lines (the second one empty) of the document.
\<close>

theorem updateText_replaces_whole_document_witness:
  "onDidReceiveMessage sample_flat_host flat_yml
        \<lparr>msg_type = JStr ''updateText'', msg_data = JObj [(''name'', JStr ''data'')]\<rparr>
        empty_world
      = (Inr (),
         empty_world\<lparr>trace :=
           [OpenTextDocument (document_uri flat_yml),
            ApplyEdit (document_uri flat_yml) (Range 0 0 2 0) ''name: data\<newline>'']\<rparr>)"
proof -
  let ?e = "\<lparr>msg_type = JStr ''updateText'', msg_data = JObj [(''name'', JStr ''data'')]\<rparr>"
  have kind: "msg_type ?e = JStr ''updateText''" by simp
  from updateText_replaces_whole_document[OF kind, of sample_flat_host flat_yml empty_world]
  show ?thesis by (simp add: sample_flat_defs block_yaml_defs)
qed

subsection \<open>C2: the messages the editor handles\<close>

text \<open>
  Claim C2 lists \<open>updateState\<close> among the incoming message types and says that a message
  of any type outside its list has no effect. It fails both ways: \<open>updateState\<close> is the
  command of a message the editor sends, and an incoming message of that type falls to
  the \<open>default\<close> branch; \<open>refreshState\<close>, which is not in the list, is handled and posts
  a message to the webview.
\<close>

theorem updateState_ignored_refreshState_handled:
  "onDidReceiveMessage sample_flat_host flat_yml
      \<lparr>msg_type = JStr ''updateState'', msg_data = JObj [(''name'', JStr ''data'')]\<rparr> empty_world
     = (Inr (), empty_world)
   \<and> onDidReceiveMessage sample_flat_host flat_yml
      \<lparr>msg_type = JStr ''refreshState'', msg_data = JUndefined\<rparr> empty_world
     = (Inr (),
        empty_world\<lparr>trace :=
          [PostMessage (JObj [(''command'', JStr ''updateState''),
                              (''config'', JObj [(''name'', JStr ''flat'')])])]\<rparr>)"
  by (simp add: onDidReceiveMessage_def updateWebviewState_def prog_defs Let_def
      sample_flat_defs)

text \<open>
  Claim C2, amended: the message types the editor handles are \<open>openEditor\<close>,
  \<open>updateText\<close>, \<open>storeSecret\<close>, \<open>refreshFiles\<close>, \<open>getFileContents\<close>, \<open>refreshState\<close>,
  \<open>getUrlContents\<close>, \<open>refreshGitDetails\<close> and \<open>previewFile\<close>. A message of any other type,
  \<open>updateState\<close> among them, has no effect; a message of one of these types is dispatched
  to its handler; and \<open>updateState\<close> is the command of the message that handling
  \<open>refreshState\<close> posts to the webview.
\<close>

theorem onDidReceiveMessage_dispatch:
  "(msg_type e \<notin> set (map JStr [''openEditor'', ''updateText'', ''storeSecret'',
        ''refreshFiles'', ''getFileContents'', ''refreshState'', ''getUrlContents'',
        ''refreshGitDetails'', ''previewFile''])
      \<longrightarrow> onDidReceiveMessage h document e w = (Inr (), w))
   \<and> (workspaceFolders h = Some (root # others)
        \<and> openTextDocument h (Uri_joinPath h root [p]) = Inr doc
        \<longrightarrow> onDidReceiveMessage h document \<lparr>msg_type = JStr ''previewFile'', msg_data = JStr p\<rparr> w
              = (Inr (), w\<lparr>trace := trace w @ [OpenTextDocument (Uri_joinPath h root [p]),
                                                  ShowTextDocument doc None]\<rparr>))
   \<and> (parse h (getText document) = Inr config
        \<longrightarrow> onDidReceiveMessage h document \<lparr>msg_type = JStr ''refreshState'', msg_data = d\<rparr> w
              = (Inr (),
                 w\<lparr>trace := trace w @ [PostMessage (JObj [(''command'', JStr ''updateState''),
                                                            (''config'', config)])]\<rparr>))
   \<and> onDidReceiveMessage h document \<lparr>msg_type = JStr ''updateState'', msg_data = d\<rparr> w
        = (Inr (), w)
   \<and> onDidReceiveMessage h document \<lparr>msg_type = JStr ''openEditor'', msg_data = d\<rparr> w
        = FlatConfigEditor_showEditor h d w
   \<and> onDidReceiveMessage h document \<lparr>msg_type = JStr ''updateText'', msg_data = d\<rparr> w
        = detached (updateTextDocument h document d) w
   \<and> onDidReceiveMessage h document \<lparr>msg_type = JStr ''storeSecret'', msg_data = d\<rparr> w
        = (Inr (), w\<lparr>trace := trace w @ [ConsoleLog ''storing secret'']\<rparr>)
   \<and> onDidReceiveMessage h document \<lparr>msg_type = JStr ''refreshFiles'', msg_data = d\<rparr> w
        = detached (loadFiles h) w
   \<and> onDidReceiveMessage h document \<lparr>msg_type = JStr ''getFileContents'', msg_data = d\<rparr> w
        = detached (loadFileContents h d) w
   \<and> onDidReceiveMessage h document \<lparr>msg_type = JStr ''refreshState'', msg_data = d\<rparr> w
        = detached (updateWebviewState h document) w
   \<and> onDidReceiveMessage h document \<lparr>msg_type = JStr ''getUrlContents'', msg_data = d\<rparr> w
        = detached (loadUrlContents h d) w
   \<and> onDidReceiveMessage h document \<lparr>msg_type = JStr ''refreshGitDetails'', msg_data = d\<rparr> w
        = andThen (getHtmlForWebview h) (\<lambda>html. emit (SetHtml html)) w"
proof (intro conjI impI)
  assume "msg_type e \<notin> set (map JStr [''openEditor'', ''updateText'', ''storeSecret'',
        ''refreshFiles'', ''getFileContents'', ''refreshState'', ''getUrlContents'',
        ''refreshGitDetails'', ''previewFile''])"
  then show "onDidReceiveMessage h document e w = (Inr (), w)"
    by (simp add: onDidReceiveMessage_def return_def)
next
  assume "workspaceFolders h = Some (root # others)
        \<and> openTextDocument h (Uri_joinPath h root [p]) = Inr doc"
  then show "onDidReceiveMessage h document \<lparr>msg_type = JStr ''previewFile'', msg_data = JStr p\<rparr> w
              = (Inr (), w\<lparr>trace := trace w @ [OpenTextDocument (Uri_joinPath h root [p]),
                                                  ShowTextDocument doc None]\<rparr>)"
    by (simp add: onDidReceiveMessage_def workspaceRootUri_def prog_defs Let_def)
next
  assume "parse h (getText document) = Inr config"
  then show "onDidReceiveMessage h document \<lparr>msg_type = JStr ''refreshState'', msg_data = d\<rparr> w
              = (Inr (),
                 w\<lparr>trace := trace w @ [PostMessage (JObj [(''command'', JStr ''updateState''),
                                                            (''config'', config)])]\<rparr>)"
    by (simp add: onDidReceiveMessage_def updateWebviewState_def prog_defs Let_def)
next
  show "onDidReceiveMessage h document \<lparr>msg_type = JStr ''updateState'', msg_data = d\<rparr> w
        = (Inr (), w)"
    by (simp add: onDidReceiveMessage_def return_def)
next
  show "onDidReceiveMessage h document \<lparr>msg_type = JStr ''storeSecret'', msg_data = d\<rparr> w
        = (Inr (), w\<lparr>trace := trace w @ [ConsoleLog ''storing secret'']\<rparr>)"
    by (simp add: onDidReceiveMessage_def emit_def request_def)
qed (simp_all add: onDidReceiveMessage_def)

text \<open>
  Witness for C2: on the sample host a \<open>ping\<close> message has no effect, \<open>previewFile\<close> opens
  and shows the file, and \<open>refreshState\<close> posts the parsed configuration.
\<close>

theorem onDidReceiveMessage_dispatch_witness:
  "JStr ''ping'' \<notin> set (map JStr [''openEditor'', ''updateText'', ''storeSecret'',
        ''refreshFiles'', ''getFileContents'', ''refreshState'', ''getUrlContents'',
        ''refreshGitDetails'', ''previewFile''])
   \<and> onDidReceiveMessage sample_flat_host flat_yml \<lparr>msg_type = JStr ''ping'', msg_data = JNull\<rparr>
        empty_world = (Inr (), empty_world)
   \<and> openTextDocument sample_flat_host
        (Uri_joinPath sample_flat_host repo [''.github/workflows/flat.yml'']) = Inr flat_yml
   \<and> onDidReceiveMessage sample_flat_host flat_yml
        \<lparr>msg_type = JStr ''previewFile'', msg_data = JStr ''.github/workflows/flat.yml''\<rparr>
        empty_world
      = (Inr (), empty_world\<lparr>trace := [OpenTextDocument (document_uri flat_yml),
                                          ShowTextDocument flat_yml None]\<rparr>)
   \<and> parse sample_flat_host (getText flat_yml) = Inr (JObj [(''name'', JStr ''flat'')])
   \<and> onDidReceiveMessage sample_flat_host flat_yml
        \<lparr>msg_type = JStr ''refreshState'', msg_data = JUndefined\<rparr> empty_world
      = (Inr (),
         empty_world\<lparr>trace :=
           [PostMessage (JObj [(''command'', JStr ''updateState''),
                               (''config'', JObj [(''name'', JStr ''flat'')])])]\<rparr>)"
proof -
  let ?ping = "\<lparr>msg_type = JStr ''ping'', msg_data = JNull\<rparr>"
  note dispatch =
    onDidReceiveMessage_dispatch[where h = sample_flat_host and document = flat_yml
      and w = empty_world and e = ?ping and root = repo and others = "[]"
      and p = "''.github/workflows/flat.yml''" and doc = flat_yml
      and config = "JObj [(''name'', JStr ''flat'')]" and d = JUndefined]
  have other: "msg_type ?ping \<notin> set (map JStr [''openEditor'', ''updateText'', ''storeSecret'',
        ''refreshFiles'', ''getFileContents'', ''refreshState'', ''getUrlContents'',
        ''refreshGitDetails'', ''previewFile''])"
    by simp
  have folders: "workspaceFolders sample_flat_host = Some (repo # [])"
    by (simp add: sample_flat_host_def)
  have opened: "openTextDocument sample_flat_host
        (Uri_joinPath sample_flat_host repo [''.github/workflows/flat.yml'']) = Inr flat_yml"
    by (simp add: sample_flat_defs)
  have parsed: "parse sample_flat_host (getText flat_yml) = Inr (JObj [(''name'', JStr ''flat'')])"
    by (simp add: sample_flat_defs)
  from dispatch other
  have ping: "onDidReceiveMessage sample_flat_host flat_yml ?ping empty_world = (Inr (), empty_world)"
    by blast
  from dispatch folders opened
  have preview: "onDidReceiveMessage sample_flat_host flat_yml
        \<lparr>msg_type = JStr ''previewFile'', msg_data = JStr ''.github/workflows/flat.yml''\<rparr>
        empty_world
      = (Inr (), empty_world\<lparr>trace := trace empty_world @
            [OpenTextDocument (Uri_joinPath sample_flat_host repo [''.github/workflows/flat.yml'']),
             ShowTextDocument flat_yml None]\<rparr>)"
    by blast
  from dispatch parsed
  have refresh: "onDidReceiveMessage sample_flat_host flat_yml
        \<lparr>msg_type = JStr ''refreshState'', msg_data = JUndefined\<rparr> empty_world
      = (Inr (),
         empty_world\<lparr>trace := trace empty_world @
           [PostMessage (JObj [(''command'', JStr ''updateState''),
                               (''config'', JObj [(''name'', JStr ''flat'')])])]\<rparr>)"
    by blast
  have joined: "Uri_joinPath sample_flat_host repo [''.github/workflows/flat.yml'']
                  = document_uri flat_yml"
    by (simp add: sample_flat_defs)
  from other ping opened preview parsed refresh joined show ?thesis
    by (simp add: empty_world_def)
qed

subsection \<open>C3: \<open>initializeFlatYml\<close> writes the workflow stub\<close>

text \<open>
  Claim C3: when \<open>initializeFlatYml\<close> runs in a workspace where
  \<open>.github/workflows/flat.yml\<close> does not exist, and creating the directory and writing
  the file succeed, the file written at that path is exactly \<open>stringify\<close> of the stub
  object (name \<open>data\<close>; triggers \<open>schedule\<close> with cron \<open>0 0 * * *\<close>, \<open>workflow_dispatch\<close> and
  \<open>push\<close> on the path of \<open>flat.yml\<close>; one job \<open>scheduled\<close> with the setup-deno and checkout
  steps). Nothing else is written, and the preview editor is opened afterwards.
\<close>

theorem initializeFlatYml_writes_stub:
  assumes "workspaceFolders h = Some (rootPath # others)"
    and "workflowsDir = path_join h [fsPath rootPath, ''.github/workflows'']"
    and "flatYmlPath = path_join h [workflowsDir, ''flat.yml'']"
    and "\<not> existsSync w flatYmlPath"
    and "fault h (MkdirSync workflowsDir) = None"
    and "fault h (WriteFileSync flatYmlPath (stringify h flatStub)) = None"
  shows "initializeFlatYml h w =
           (Inr (),
            w\<lparr>files := (files w)(flatYmlPath \<mapsto> stringify h flatStub),
              dirs := workflowsDir # dirs w,
              trace := trace w @ [MkdirSync workflowsDir,
                                  WriteFileSync flatYmlPath (stringify h flatStub),
                                  openWith h rootPath True False]\<rparr>)
         \<and> flatStub =
             JObj [
               (''name'', JStr ''data''),
               (''on'', JObj [
                  (''schedule'', JArr [JObj [(''cron'', JStr ''0 0 * * *'')]]),
                  (''workflow_dispatch'', JObj []),
                  (''push'', JObj [(''paths'', JArr [JStr ''.github/workflows/flat.yml''])])]),
               (''jobs'', JObj [
                  (''scheduled'', JObj [
                     (''runs-on'', JStr ''ubuntu-latest''),
                     (''steps'', JArr [
                        JObj [(''name'', JStr ''Setup deno''),
                              (''uses'', JStr ''denoland/setup-deno@main''),
                              (''with'', JObj [(''deno-version'', JStr ''v1.10.x'')])],
                        JObj [(''name'', JStr ''Check out repo''),
                              (''uses'', JStr ''actions/checkout@v2'')]])])])]"
proof
  from assms show "initializeFlatYml h w =
           (Inr (),
            w\<lparr>files := (files w)(flatYmlPath \<mapsto> stringify h flatStub),
              dirs := workflowsDir # dirs w,
              trace := trace w @ [MkdirSync workflowsDir,
                                  WriteFileSync flatYmlPath (stringify h flatStub),
                                  openWith h rootPath True False]\<rparr>)"
    by (simp add: initializeFlatYml_def showEditor_def mkdirSync_def writeFileSync_def
        workspaceRootUri_def prog_defs Let_def)
qed (simp add: flatStub_def)

text \<open>
  Witness for C3: in the sample repository with an empty file system, the stub is written
  to \<open>/home/user/repo/.github/workflows/flat.yml\<close>.
\<close>

theorem initializeFlatYml_writes_stub_witness:
  "workspaceFolders sample_flat_host = Some [repo]
   \<and> \<not> existsSync empty_world ''/home/user/repo/.github/workflows/flat.yml''
   \<and> fault sample_flat_host (MkdirSync ''/home/user/repo/.github/workflows'') = None
   \<and> fault sample_flat_host
        (WriteFileSync ''/home/user/repo/.github/workflows/flat.yml''
           (stringify sample_flat_host flatStub)) = None
   \<and> files (snd (initializeFlatYml sample_flat_host empty_world))
        ''/home/user/repo/.github/workflows/flat.yml''
      = Some (stringify sample_flat_host flatStub)
   \<and> fst (initializeFlatYml sample_flat_host empty_world) = Inr ()"
proof -
  have folders: "workspaceFolders sample_flat_host = Some (repo # [])"
    by (simp add: sample_flat_host_def)
  have dir: "''/home/user/repo/.github/workflows''
               = path_join sample_flat_host [fsPath repo, ''.github/workflows'']"
    by (simp add: sample_flat_defs fsPath_def)
  have target: "''/home/user/repo/.github/workflows/flat.yml''
                = path_join sample_flat_host [''/home/user/repo/.github/workflows'', ''flat.yml'']"
    by (simp add: sample_flat_defs)
  have missing: "\<not> existsSync empty_world ''/home/user/repo/.github/workflows/flat.yml''"
    by (simp add: existsSync_def empty_world_def)
  have mkdir: "fault sample_flat_host (MkdirSync ''/home/user/repo/.github/workflows'') = None"
    by (simp add: sample_flat_host_def)
  have written: "fault sample_flat_host
        (WriteFileSync ''/home/user/repo/.github/workflows/flat.yml''
           (stringify sample_flat_host flatStub)) = None"
    by (simp add: sample_flat_host_def)
  from initializeFlatYml_writes_stub[OF folders dir target missing mkdir written]
  have "initializeFlatYml sample_flat_host empty_world =
          (Inr (),
           empty_world\<lparr>files := (files empty_world)
                (''/home/user/repo/.github/workflows/flat.yml''
                   \<mapsto> stringify sample_flat_host flatStub),
              dirs := ''/home/user/repo/.github/workflows'' # dirs empty_world,
              trace := trace empty_world @
                [MkdirSync ''/home/user/repo/.github/workflows'',
                 WriteFileSync ''/home/user/repo/.github/workflows/flat.yml''
                   (stringify sample_flat_host flatStub),
                 openWith sample_flat_host repo True False]\<rparr>)"
    by (rule conjunct1)
  with folders missing mkdir written show ?thesis by simp
qed

subsection \<open>C4: a failed open is attempted again\<close>

text \<open>
  Claim C4 says that no failed attempt is ever reattempted, and that
  \<open>OpenDocumentLinkCommand.execute\<close> does not try the open again with a modified target.
  It fails for a link without extension: on the sample host \<open>/docs/readme\<close> does not
  exist, the first attempt fails at \<open>stat\<close>, and \<open>execute\<close> attempts
  \<open>/docs/readme.md\<close>, which it opens and shows.
\<close>

theorem execute_retries_with_md_extension:
  "stat sample_md_host (file_uri ''/docs/readme'') = Inl (HostError ''FileNotFound'')
   \<and> execute sample_md_host readme_link empty_world =
       (Inr (),
        empty_world\<lparr>trace :=
          [Stat (file_uri ''/docs/readme''),
           Stat (file_uri ''/docs/readme.md''),
           OpenTextDocument (file_uri ''/docs/readme.md''),
           ShowTextDocument readme_md (Some Active)]\<rparr>)"
  by (simp add: execute_def tryOpen_def tryRevealLine_def getViewColumn_def prog_defs Let_def
      sample_md_defs)

text \<open>
  Claim C4, amended: when the first attempt of \<open>OpenDocumentLinkCommand.execute\<close> to open
  the target fails, it makes exactly one further attempt, and the outcome of that attempt
  is the outcome of \<open>execute\<close>: for a target path without extension it tries to open the
  path with \<open>.md\<close> appended; for a path with an extension it executes \<open>vscode.open\<close> on
  the unmodified target.
\<close>

theorem execute_second_attempt:
  assumes "decodeURIComponent h (args_fromResource args) = Inr decoded"
    and "decodeURIComponent h (args_path args) = Inr targetPath"
    and "Uri_file targetPath = Inr targetResource"
    and "column = getViewColumn h (Uri_parse h decoded)"
    and "tryOpen h targetResource args column w = (Inl e, w')"
  shows "execute h args w =
           (if extname h (path targetResource) = []
            then tryOpen h (targetResource\<lparr>path := path targetResource @ ''.md''\<rparr>)
                   args column w'
            else await_call h
                   (ExecuteCommand ''vscode.open'' [AUri targetResource, AColumn column])
                   w')"
  using assms by (simp add: execute_def andThen_def lift_def try_catch_def Let_def)

text \<open>
  Witness for C4: the link to \<open>/docs/readme\<close> on the sample host; the first attempt fails
  after its \<open>stat\<close>, the second is the attempt on \<open>/docs/readme.md\<close>.
\<close>

theorem execute_second_attempt_witness:
  "decodeURIComponent sample_md_host (args_fromResource readme_link) = Inr ''/docs/index.md''
   \<and> decodeURIComponent sample_md_host (args_path readme_link) = Inr ''/docs/readme''
   \<and> Uri_file ''/docs/readme'' = Inr (file_uri ''/docs/readme'')
   \<and> tryOpen sample_md_host (file_uri ''/docs/readme'') readme_link Active empty_world
        = (Inl (HostError ''FileNotFound''),
           empty_world\<lparr>trace := [Stat (file_uri ''/docs/readme'')]\<rparr>)
   \<and> extname sample_md_host (path (file_uri ''/docs/readme'')) = []
   \<and> execute sample_md_host readme_link empty_world
        = tryOpen sample_md_host (file_uri ''/docs/readme.md'') readme_link Active
            (empty_world\<lparr>trace := [Stat (file_uri ''/docs/readme'')]\<rparr>)"
proof -
  have from_resource:
    "decodeURIComponent sample_md_host (args_fromResource readme_link) = Inr ''/docs/index.md''"
    by (simp add: sample_md_defs)
  have target: "decodeURIComponent sample_md_host (args_path readme_link) = Inr ''/docs/readme''"
    by (simp add: sample_md_defs)
  have resource: "Uri_file ''/docs/readme'' = Inr (file_uri ''/docs/readme'')"
    by (simp add: Uri_file_def file_uri_def)
  have column: "Active = getViewColumn sample_md_host (Uri_parse sample_md_host ''/docs/index.md'')"
    by (simp add: getViewColumn_def sample_md_defs)
  have failed: "tryOpen sample_md_host (file_uri ''/docs/readme'') readme_link Active empty_world
        = (Inl (HostError ''FileNotFound''),
           empty_world\<lparr>trace := [Stat (file_uri ''/docs/readme'')]\<rparr>)"
    by (simp add: tryOpen_def prog_defs Let_def sample_md_defs)
  have bare: "extname sample_md_host (path (file_uri ''/docs/readme'')) = []"
    by (simp add: sample_md_defs)
  have appended: "(file_uri ''/docs/readme'')\<lparr>path := path (file_uri ''/docs/readme'') @ ''.md''\<rparr>
                    = file_uri ''/docs/readme.md''"
    by (simp add: file_uri_def)
  from execute_second_attempt[OF from_resource target resource column failed] bare appended
  have "execute sample_md_host readme_link empty_world
        = tryOpen sample_md_host (file_uri ''/docs/readme.md'') readme_link Active
            (empty_world\<lparr>trace := [Stat (file_uri ''/docs/readme'')]\<rparr>)"
    by simp
  with from_resource target resource failed bare show ?thesis by blast
qed

subsection \<open>C5: the Markdown resolver swallows errors\<close>

text \<open>
  Claim C5 says that \<open>resolveLinkToMarkdownFile\<close> never raises, for every path. It fails
  for the path \<open>////x\<close>: \<open>vscode.Uri.file\<close> refuses a path that begins with four
  slashes, and it is called before the \<open>try\<close> of \<open>tryResolveLinkToMarkdownFile\<close>. The
  first call of \<open>resolveLinkToMarkdownFile\<close> is inside a \<open>try\<close>, so its error is
  dropped; the path has no extension, and the second call, for \<open>////x.md\<close>, is outside
  every \<open>try\<close>: its error is the outcome.
\<close>

theorem resolveLinkToMarkdownFile_raises_on_refused_path:
  "extname sample_md_host ''////x'' = []
   \<and> resolveLinkToMarkdownFile sample_md_host ''////x'' empty_world =
       (Inl (Error ''[UriError]: If a URI does not contain an authority component, then the path cannot begin with two slash characters''),
        empty_world)"
  by (simp add: resolveLinkToMarkdownFile_def tryResolveLinkToMarkdownFile_def prog_defs
      Let_def sample_md_defs)

text \<open>
  Claim C5, amended: for every path that \<open>vscode.Uri.file\<close> accepts (the paths it
  refuses are those that begin with four slashes), and whatever the host answers,
  \<open>resolveLinkToMarkdownFile\<close> and \<open>tryResolveLinkToMarkdownFile\<close> never raise: they
  return a URI or \<open>undefined\<close>. When opening the document of the path fails,
  \<open>tryResolveLinkToMarkdownFile\<close> returns \<open>undefined\<close>, and \<open>resolveLinkToMarkdownFile\<close>
  falls through to the attempt with \<open>.md\<close> appended if the path has no extension, and
  returns \<open>undefined\<close> otherwise.
\<close>

theorem resolveLinkToMarkdownFile_never_raises:
  assumes "Uri_file p = Inr resource"
  shows "take 4 p \<noteq> ''////''
   \<and> (\<exists>r. fst (tryResolveLinkToMarkdownFile h p w) = Inr r)
   \<and> (\<exists>r. fst (resolveLinkToMarkdownFile h p w) = Inr r)
   \<and> (openTextDocument h resource = Inl e \<longrightarrow>
        tryResolveLinkToMarkdownFile h p w
          = (Inr None, w\<lparr>trace := trace w @ [OpenTextDocument resource]\<rparr>)
        \<and> resolveLinkToMarkdownFile h p w =
            (if extname h p = []
             then tryResolveLinkToMarkdownFile h (p @ ''.md'')
                    (w\<lparr>trace := trace w @ [OpenTextDocument resource]\<rparr>)
             else (Inr None, w\<lparr>trace := trace w @ [OpenTextDocument resource]\<rparr>)))"
proof (intro conjI impI)
  from assms show "take 4 p \<noteq> ''////''"
    using Uri_file_refuses[of p] by auto
next
  show "\<exists>r. fst (tryResolveLinkToMarkdownFile h p w) = Inr r"
    using assms by (rule tryResolveLinkToMarkdownFile_returns)
next
  from Uri_file_with_md[OF assms] obtain resource'
    where "Uri_file (p @ ''.md'') = Inr resource'" by blast
  then have second: "\<exists>r. fst (tryResolveLinkToMarkdownFile h (p @ ''.md'') w') = Inr r" for w'
    by (rule tryResolveLinkToMarkdownFile_returns)
  obtain r w1 where first: "tryResolveLinkToMarkdownFile h p w = (r, w1)"
    by (cases "tryResolveLinkToMarkdownFile h p w")
  show "\<exists>r. fst (resolveLinkToMarkdownFile h p w) = Inr r"
    using first second[of w1]
    by (cases r)
       (auto simp add: resolveLinkToMarkdownFile_def andThen_def try_catch_def return_def
          split: option.splits)
next
  assume "openTextDocument h resource = Inl e"
  with assms show "tryResolveLinkToMarkdownFile h p w
          = (Inr None, w\<lparr>trace := trace w @ [OpenTextDocument resource]\<rparr>)"
    by (simp add: tryResolveLinkToMarkdownFile_def prog_defs Let_def)
next
  assume "openTextDocument h resource = Inl e"
  with assms show "resolveLinkToMarkdownFile h p w =
            (if extname h p = []
             then tryResolveLinkToMarkdownFile h (p @ ''.md'')
                    (w\<lparr>trace := trace w @ [OpenTextDocument resource]\<rparr>)
             else (Inr None, w\<lparr>trace := trace w @ [OpenTextDocument resource]\<rparr>))"
    by (simp add: resolveLinkToMarkdownFile_def tryResolveLinkToMarkdownFile_def prog_defs
        Let_def)
qed

text \<open>
  Witness for C5: \<open>/docs/readme\<close> is accepted and cannot be opened on the sample host;
  the resolver returns the URI of \<open>/docs/readme.md\<close>, found by the second attempt.
\<close>

theorem resolveLinkToMarkdownFile_never_raises_witness:
  "Uri_file ''/docs/readme'' = Inr (file_uri ''/docs/readme'')
   \<and> openTextDocument sample_md_host (file_uri ''/docs/readme'') = Inl (HostError ''FileNotFound'')
   \<and> tryResolveLinkToMarkdownFile sample_md_host ''/docs/readme'' empty_world
        = (Inr None, empty_world\<lparr>trace := [OpenTextDocument (file_uri ''/docs/readme'')]\<rparr>)
   \<and> resolveLinkToMarkdownFile sample_md_host ''/docs/readme'' empty_world
       = (Inr (Some (file_uri ''/docs/readme.md'')),
          empty_world\<lparr>trace := [OpenTextDocument (file_uri ''/docs/readme''),
                                  OpenTextDocument (file_uri ''/docs/readme.md'')]\<rparr>)"
proof -
  have accepted: "Uri_file ''/docs/readme'' = Inr (file_uri ''/docs/readme'')"
    by (simp add: Uri_file_def file_uri_def)
  have failed:
    "openTextDocument sample_md_host (file_uri ''/docs/readme'') = Inl (HostError ''FileNotFound'')"
    by (simp add: sample_md_defs)
  have bare: "extname sample_md_host ''/docs/readme'' = []"
    by (simp add: sample_md_defs)
  have second: "tryResolveLinkToMarkdownFile sample_md_host (''/docs/readme'' @ ''.md'')
          (empty_world\<lparr>trace := trace empty_world @ [OpenTextDocument (file_uri ''/docs/readme'')]\<rparr>)
        = (Inr (Some (file_uri ''/docs/readme.md'')),
          empty_world\<lparr>trace := [OpenTextDocument (file_uri ''/docs/readme''),
                                  OpenTextDocument (file_uri ''/docs/readme.md'')]\<rparr>)"
    by (simp add: tryResolveLinkToMarkdownFile_def prog_defs Let_def sample_md_defs)
  from resolveLinkToMarkdownFile_never_raises
         [OF accepted, of sample_md_host empty_world "HostError ''FileNotFound''"]
       failed bare second
  have "tryResolveLinkToMarkdownFile sample_md_host ''/docs/readme'' empty_world
        = (Inr None, empty_world\<lparr>trace := [OpenTextDocument (file_uri ''/docs/readme'')]\<rparr>)
   \<and> resolveLinkToMarkdownFile sample_md_host ''/docs/readme'' empty_world
       = (Inr (Some (file_uri ''/docs/readme.md'')),
          empty_world\<lparr>trace := [OpenTextDocument (file_uri ''/docs/readme''),
                                  OpenTextDocument (file_uri ''/docs/readme.md'')]\<rparr>)"
    by (simp add: empty_world_def)
  with accepted failed show ?thesis by blast
qed

subsection \<open>C7: a failure is shown in a message box\<close>



subsection \<open>C8: without a workspace folder the entry points should do nothing\<close>

text \<open>
  Claim C8 says that with no workspace folder open \<open>showEditor\<close>, \<open>initializeFlatYml\<close>,
  \<open>loadFiles\<close> and \<open>loadFileContents\<close> return without any effect. The code does so when
  \<open>workspaceFolders\<close> is \<open>undefined\<close>, the case its guards test. In a workspace that is
  open with no folder in it, \<open>workspaceFolders\<close> is the empty array: the guards let it
  through, the first folder is \<open>undefined\<close>, and reading its \<open>uri\<close> throws. On the sample
  host with such a workspace each of the four ends with a TypeError (and the state as it
  was) instead of returning.
\<close>

theorem entry_points_raise_on_empty_folders:
  "workspaceFolders empty_workspace_flat_host = Some []
   \<and> showEditor empty_workspace_flat_host \<lparr>isPreview = Some True, onSide = Some False\<rparr>
        repo_world
      = (Inl (TypeError ''Cannot read properties of undefined (reading uri)''), repo_world)
   \<and> initializeFlatYml empty_workspace_flat_host repo_world
      = (Inl (TypeError ''Cannot read properties of undefined (reading uri)''), repo_world)
   \<and> loadFiles empty_workspace_flat_host repo_world
      = (Inl (TypeError ''Cannot read properties of undefined (reading uri)''), repo_world)
   \<and> loadFileContents empty_workspace_flat_host (JStr ''README.md'') repo_world
      = (Inl (TypeError ''Cannot read properties of undefined (reading uri)''), repo_world)"
  by (simp add: showEditor_def initializeFlatYml_def loadFiles_def loadFileContents_def
      workspaceRootUri_def empty_workspace_flat_host_def prog_defs Let_def)

text \<open>
  What holds of the four entry points: with \<open>workspaceFolders\<close> \<open>undefined\<close> they return
  and leave the state as it was; with the empty array they leave the state as it was as
  well, and raise.
\<close>

lemma no_workspace_no_effect:
  "(workspaceFolders h = None \<longrightarrow>
       showEditor h options w = (Inr (), w)
     \<and> initializeFlatYml h w = (Inr (), w)
     \<and> loadFiles h w = (Inr (), w)
     \<and> loadFileContents h filePath w = (Inr (), w))
   \<and> (workspaceFolders h = Some [] \<longrightarrow>
       snd (showEditor h options w) = w
     \<and> snd (initializeFlatYml h w) = w
     \<and> snd (loadFiles h w) = w
     \<and> snd (loadFileContents h filePath w) = w)"
  by (simp add: showEditor_def initializeFlatYml_def loadFiles_def loadFileContents_def
      workspaceRootUri_def prog_defs Let_def)

lemma empty_folders_raise:
  assumes "workspaceFolders h = Some []"
  shows "\<exists>m. fst (showEditor h options w) = Inl (TypeError m)"
    and "\<exists>m. fst (initializeFlatYml h w) = Inl (TypeError m)"
    and "\<exists>m. fst (loadFiles h w) = Inl (TypeError m)"
    and "\<exists>m. fst (loadFileContents h filePath w) = Inl (TypeError m)"
  using assms
  by (simp_all add: showEditor_def initializeFlatYml_def loadFiles_def loadFileContents_def
      workspaceRootUri_def prog_defs Let_def)

subsection \<open>C9: an existing configuration is kept\<close>

text \<open>
  Claim C9: in every workspace in which \<open>.github/workflows/flat.yml\<close> already exists,
  \<open>initializeFlatYml\<close> leaves the files, this one among them, and the directories
  unchanged, and the only call it makes opens the preview editor on the file.
\<close>

theorem initializeFlatYml_keeps_existing:
  assumes "workspaceFolders h = Some (rootPath # others)"
    and "existsSync w
           (path_join h [path_join h [fsPath rootPath, ''.github/workflows''], ''flat.yml''])"
  shows "initializeFlatYml h w =
           (Inr (), w\<lparr>trace := trace w @ [openWith h rootPath True False]\<rparr>)
         \<and> files (snd (initializeFlatYml h w)) = files w
         \<and> dirs (snd (initializeFlatYml h w)) = dirs w"
  using assms
  by (simp add: initializeFlatYml_def showEditor_def workspaceRootUri_def prog_defs Let_def)

text \<open>
  Witness for C9: the sample repository with its \<open>flat.yml\<close>; the file keeps its text and
  the only call is \<open>vscode.openWith\<close> with the \<open>flat.config\<close> editor.
\<close>

theorem initializeFlatYml_keeps_existing_witness:
  "workspaceFolders sample_flat_host = Some [repo]
   \<and> existsSync repo_world ''/home/user/repo/.github/workflows/flat.yml''
   \<and> files (snd (initializeFlatYml sample_flat_host repo_world))
        ''/home/user/repo/.github/workflows/flat.yml'' = Some ''name: flat\<newline>''
   \<and> trace (snd (initializeFlatYml sample_flat_host repo_world)) =
        [ExecuteCommand ''vscode.openWith''
           [AUri (file_uri ''/home/user/repo/.github/workflows/flat.yml''),
            AStr ''flat.config'', AObj []]]"
proof -
  have folders: "workspaceFolders sample_flat_host = Some (repo # [])"
    by (simp add: sample_flat_host_def)
  have target: "path_join sample_flat_host
                  [path_join sample_flat_host [fsPath repo, ''.github/workflows''], ''flat.yml'']
                = ''/home/user/repo/.github/workflows/flat.yml''"
    by (simp add: sample_flat_defs fsPath_def)
  have there: "existsSync repo_world ''/home/user/repo/.github/workflows/flat.yml''"
    by (simp add: existsSync_def repo_world_def)
  then have "existsSync repo_world (path_join sample_flat_host
                  [path_join sample_flat_host [fsPath repo, ''.github/workflows''], ''flat.yml''])"
    by (simp only: target)
  from initializeFlatYml_keeps_existing[OF folders this]
  have "initializeFlatYml sample_flat_host repo_world =
          (Inr (), repo_world\<lparr>trace := trace repo_world @ [openWith sample_flat_host repo True False]\<rparr>)"
    by (rule conjunct1)
  then have "files (snd (initializeFlatYml sample_flat_host repo_world))
        ''/home/user/repo/.github/workflows/flat.yml'' = Some ''name: flat\<newline>''
     \<and> trace (snd (initializeFlatYml sample_flat_host repo_world)) =
        [ExecuteCommand ''vscode.openWith''
           [AUri (file_uri ''/home/user/repo/.github/workflows/flat.yml''),
            AStr ''flat.config'', AObj []]]"
    by (simp add: repo_world_def openWith_def sample_flat_defs)
  with folders there show ?thesis by simp
qed

subsection \<open>C10: every watcher is disposed\<close>

text \<open>
  Claim C10: in \<open>createAzureFunction\<close>, whatever the host and the user answer (success,
  timeout, cancellation or a thrown error), every file-system watcher handed out to
  observe a new host file or function file has been disposed when the function ends:
  among the calls the function made, no watcher is still live.
\<close>

theorem createAzureFunction_disposes_watchers:
  "undisposed
     (drop (length (trace w))
        (trace (snd (createAzureFunction h connectionString schema table w))))
     live
   = live"
proof -
  from leak_free_createAzureFunction[of h connectionString schema table]
  obtain ev
    where "snd (createAzureFunction h connectionString schema table w) = w\<lparr>trace := trace w @ ev\<rparr>"
      and "\<And>live. undisposed ev live = live"
    by (rule leak_freeE) blast
  then show ?thesis by simp
qed

text \<open>
  Witness for C10: the sample user goes through the whole flow; both watchers are handed
  out and each is disposed before the next step.
\<close>

theorem createAzureFunction_disposes_watchers_witness:
  "trace (snd (createAzureFunction sample_az_host ''Server=.'' ''dbo'' ''Orders'' empty_world)) =
     [GetAzureFunctionsExtensionApi,
      GetAzureFunctionProject,
      ShowErrorMessage ''An Azure Functions project must be opened''
        [''Create Azure Function Project'', ''Learn more''],
      WaitForNewHostFile,
      WatcherCreated 1,
      CreateFunction [],
      GetAzureFunctionProject,
      Dispose 1,
      WaitForNewFunctionFile ''/proj/app.csproj'',
      WatcherCreated 2,
      GetUniqueFileName ''/proj'' ''Orders'',
      ShowInputBox ''Orders'',
      CreateFunction [(''language'', ''C#''), (''templateId'', ''HttpTrigger''),
                      (''functionName'', ''Orders''), (''folderPath'', ''/proj/app.csproj'')],
      Dispose 2,
      ShowQuickPick,
      AddNugetReferenceToProjectFile ''/proj/app.csproj'',
      AddConnectionStringToConfig ''Server=.'' ''/proj/app.csproj'',
      GetAzureFunctionService,
      AddSqlBinding BindingType_input ''/proj/Orders.cs'' ''Orders'' ''[dbo].[Orders]''
        ''SqlConnectionString'',
      OverwriteAzureFunctionMethodBody ''/proj/Orders.cs'']
   \<and> undisposed
        (drop (length (trace empty_world))
           (trace (snd (createAzureFunction sample_az_host ''Server=.'' ''dbo'' ''Orders''
                          empty_world))))
        [] = []"
proof
  show "undisposed
        (drop (length (trace empty_world))
           (trace (snd (createAzureFunction sample_az_host ''Server=.'' ''dbo'' ''Orders''
                          empty_world))))
        [] = []"
    by (rule createAzureFunction_disposes_watchers)
qed (simp add: createAzureFunction_def createProjectFlow_def watcher_request_def prog_defs
       Let_def sample_az_defs)

subsection \<open>A path the claims above leave out\<close>

text \<open>
  When \<open>waitForNewHostFile\<close> itself throws, the message is shown, and the \<open>finally\<close> then
  throws on the object that was never assigned: the block ends with that error instead
  of returning.
\<close>

lemma createProjectFlow_without_watcher:
  assumes "waitForNewHostFile h = Inl err"
  shows "createProjectFlow h projectFile w =
           (Inl (TypeError ''Cannot read properties of undefined (reading watcherDisposable)''),
            w\<lparr>trace := trace w @
               [WaitForNewHostFile,
                ShowErrorMessage (formatString h (errorNewAzureFunction h) (message err)) []]\<rparr>)"
  using assms
  by (simp add: createProjectFlow_def watcher_request_def prog_defs Let_def)

end
